theory Spec2Isabelle
  imports Complex_Main "HOL-Library.Sublist"
begin

section \<open>Strings\<close>

text \<open>
  JavaScript strings are modelled as \<^typ>\<open>string\<close>. The keys, operation names and
  addresses that the modelled code compares are ASCII; messages that the source writes in
  Chinese are given as ASCII paraphrases, which keeps every ASCII keyword (and the absence
  of one) that the source's substring tests look for.
\<close>

definition lowerChar :: "char \<Rightarrow> char" where
  "lowerChar c =
     (case map_of (zip ''ABCDEFGHIJKLMNOPQRSTUVWXYZ'' ''abcdefghijklmnopqrstuvwxyz'') c of
        Some d \<Rightarrow> d
      | None \<Rightarrow> c)"

definition toLowerCase :: "string \<Rightarrow> string" where
  "toLowerCase s = map lowerChar s"

text \<open>\<open>s.includes(k)\<close> and \<open>s.startsWith(k)\<close>.\<close>

definition includesStr :: "string \<Rightarrow> string \<Rightarrow> bool" where
  "includesStr s k = sublist k s"

definition startsWith :: "string \<Rightarrow> string \<Rightarrow> bool" where
  "startsWith s k = prefix k s"

fun joinWith :: "string \<Rightarrow> string list \<Rightarrow> string" where
  "joinWith sep [] = []"
| "joinWith sep [x] = x"
| "joinWith sep (x # y # ys) = x @ sep @ joinWith sep (y # ys)"

section \<open>rpcOptimizer.ts: the endpoint pool and its cache\<close>

text \<open>
  \<open>interface RpcNode\<close>. Times are milliseconds (\<open>Date.now()\<close>), the rolling response time
  is a JavaScript number.
\<close>

record RpcNode =
  url :: string
  name :: string
  weight :: int
  maxRequestsPerMinute :: int
  currentRequests :: int
  lastResetTime :: int
  isHealthy :: bool
  responseTime :: real
  errorCount :: int
  lastUsed :: int

text \<open>An entry of \<open>cache: Map<string, { data, timestamp, ttl }>\<close>.\<close>

record 'v CacheEntry =
  data :: 'v
  timestamp :: int
  ttl :: int

type_synonym 'v Cache = "string \<rightharpoonup> 'v CacheEntry"

record 'v RpcOptimizer =
  nodes :: "RpcNode list"
  cache :: "'v Cache"

text \<open>
  \<open>getCacheKey\<close>: the operation name, a colon, and \<open>JSON.stringify(params)\<close>. The
  parameters are address strings, which JSON prints between double quotes unchanged.
\<close>

definition JSON_stringify :: "string list \<Rightarrow> string" where
  "JSON_stringify params =
     ''['' @ joinWith '','' (map (\<lambda>p. [CHR 0x22] @ p @ [CHR 0x22]) params) @ '']''"

definition getCacheKey :: "string \<Rightarrow> string list \<Rightarrow> string" where
  "getCacheKey operation params = operation @ '':'' @ JSON_stringify params"

text \<open>
  \<open>getFromCache\<close> at time \<open>now\<close>: a missing entry gives \<open>null\<close>; an entry with
  \<open>Date.now() - timestamp > ttl\<close> is deleted and gives \<open>null\<close>; otherwise its data.
  The result is paired with the cache the call leaves behind.
\<close>

definition getFromCache :: "int \<Rightarrow> string \<Rightarrow> 'v Cache \<Rightarrow> 'v option \<times> 'v Cache" where
  "getFromCache now key c =
     (case c key of
        None \<Rightarrow> (None, c)
      | Some cached \<Rightarrow>
          if now - timestamp cached > ttl cached then (None, c(key := None))
          else (Some (data cached), c))"

text \<open>
  \<open>setCache\<close> at time \<open>now\<close>: once the map holds 1000 entries, the expired ones are swept;
  then the entry is written.
\<close>

definition sweepExpired :: "int \<Rightarrow> 'v Cache \<Rightarrow> 'v Cache" where
  "sweepExpired now c =
     (\<lambda>k. case c k of
            None \<Rightarrow> None
          | Some v \<Rightarrow> if now - timestamp v > ttl v then None else Some v)"

definition setCache :: "int \<Rightarrow> string \<Rightarrow> 'v \<Rightarrow> int \<Rightarrow> 'v Cache \<Rightarrow> 'v Cache" where
  "setCache now key d t c =
     (let c' = (if card (dom c) \<ge> 1000 then sweepExpired now c else c)
      in c'(key \<mapsto> \<lparr>data = d, timestamp = now, ttl = t\<rparr>))"

text \<open>\<open>clearCacheForOperation\<close>: every key that starts with \<open>operation + ':'\<close> is deleted.\<close>

definition deleteKeys :: "(string \<Rightarrow> bool) \<Rightarrow> 'v Cache \<Rightarrow> 'v Cache" where
  "deleteKeys doomed c = (\<lambda>k. if doomed k then None else c k)"

definition clearCacheForOperation :: "string \<Rightarrow> 'v Cache \<Rightarrow> 'v Cache" where
  "clearCacheForOperation operation c = deleteKeys (\<lambda>key. startsWith key (operation @ '':'')) c"

subsection \<open>One call attempt on one endpoint\<close>

text \<open>
  What the network does is an input of the model. An attempt is the time at which the call
  starts, what the provider call does (\<open>Inl\<close> the message of the error it throws, \<open>Inr\<close>
  the value it resolves to), and the time at which it settles. The attempts of one
  \<open>executeRequest\<close> are numbered from 0 in the order in which they are made.
\<close>

record 'v Attempt =
  startTime :: int
  outcome :: "string + 'v"
  endTime :: int

type_synonym 'v Network = "nat \<Rightarrow> 'v Attempt"

text \<open>
  The \<open>switch (operation)\<close>: the four known operations reach the provider, any other
  name throws inside the \<open>try\<close> block and so counts as a failure of the endpoint.
\<close>

definition knownOperations :: "string list" where
  "knownOperations = [''getBalance'', ''getGasPrice'', ''getTokenInfo'', ''getTokenBalance'']"

definition dispatch :: "string \<Rightarrow> 'v Attempt \<Rightarrow> string + 'v" where
  "dispatch operation a =
     (if operation \<in> set knownOperations then outcome a
      else Inl (''unknown operation: '' @ operation))"

text \<open>The bookkeeping before the call, after a success and after a failure.\<close>

definition markUsed :: "int \<Rightarrow> RpcNode \<Rightarrow> RpcNode" where
  "markUsed t0 node = node\<lparr>currentRequests := currentRequests node + 1, lastUsed := t0\<rparr>"

definition recordSuccess :: "int \<Rightarrow> RpcNode \<Rightarrow> RpcNode" where
  "recordSuccess elapsed node =
     node\<lparr>responseTime := (responseTime node + real_of_int elapsed) / 2,
          errorCount := max 0 (errorCount node - 1)\<rparr>"

definition recordFailure :: "RpcNode \<Rightarrow> RpcNode" where
  "recordFailure node =
     (let node' = node\<lparr>errorCount := errorCount node + 1,
                       responseTime := responseTime node * 1.5\<rparr>
      in if errorCount node' \<ge> 3 then node'\<lparr>isHealthy := False\<rparr> else node')"

text \<open>
  The loop \<open>for (const node of healthyNodes)\<close>. It walks the endpoint list in order and
  skips the unhealthy ones; \<open>i\<close> counts the attempts made so far. It returns the updated
  endpoints, the number of attempts made, and either the last error or the first value
  together with the time at which it arrived.
\<close>

fun tryNodes ::
  "string \<Rightarrow> 'v Network \<Rightarrow> nat \<Rightarrow> string option \<Rightarrow> RpcNode list
     \<Rightarrow> RpcNode list \<times> nat \<times> (string option + 'v \<times> int)" where
  "tryNodes operation net i lastError [] = ([], i, Inl lastError)"
| "tryNodes operation net i lastError (node # rest) =
     (if \<not> isHealthy node then
        (case tryNodes operation net i lastError rest of
           (rest', k, r) \<Rightarrow> (node # rest', k, r))
      else
        (let a = net i; used = markUsed (startTime a) node in
         case dispatch operation a of
           Inr result \<Rightarrow>
             (recordSuccess (endTime a - startTime a) used # rest, Suc i, Inr (result, endTime a))
         | Inl err \<Rightarrow>
             (case tryNodes operation net (Suc i) (Some err) rest of
                (rest', k, r) \<Rightarrow> (recordFailure used # rest', k, r))))"

text \<open>
  \<open>executeRequest(operation, params, cacheTime)\<close>, called at time \<open>now\<close>. It returns the
  result (\<open>Inl\<close> the message of the error thrown), the state it leaves, and the number of
  network calls it made. The throttle (\<open>waitForQueueSlot\<close>, \<open>processQueue\<close>) only delays a
  call while five others are in flight and is left out of this sequential model.
\<close>

definition executeRequest ::
  "string \<Rightarrow> string list \<Rightarrow> int \<Rightarrow> int \<Rightarrow> 'v Network \<Rightarrow> 'v RpcOptimizer
     \<Rightarrow> (string + 'v) \<times> 'v RpcOptimizer \<times> nat" where
  "executeRequest operation params cacheTime now net s =
     (let cacheKey = getCacheKey operation params;
          (cached, c1) = (if cacheTime > 0 then getFromCache now cacheKey (cache s)
                          else (None, cache s))
      in case cached of
           Some v \<Rightarrow> (Inr v, s\<lparr>cache := c1\<rparr>, 0)
         | None \<Rightarrow>
             if filter isHealthy (nodes s) = [] then
               (Inl ''no RPC node available'', s\<lparr>cache := c1\<rparr>, 0)
             else
               (case tryNodes operation net 0 None (nodes s) of
                  (nodes', k, Inr (result, t1)) \<Rightarrow>
                    (Inr result,
                     \<lparr>nodes = nodes',
                      cache = (if cacheTime > 0 then setCache t1 cacheKey result cacheTime c1
                               else c1)\<rparr>,
                     k)
                | (nodes', k, Inl lastError) \<Rightarrow>
                    (Inl (''network request failed: '' @
                          (case lastError of Some m \<Rightarrow> m | None \<Rightarrow> ''unknown error'')),
                     \<lparr>nodes = nodes', cache = c1\<rparr>,
                     k)))"

text \<open>
  \<open>performHealthCheck\<close>: every unhealthy endpoint is probed with \<open>getBlockNumber\<close>; the
  probe of the endpoint at position \<open>i\<close> either throws (\<open>Inl\<close>) or answers after a number of
  milliseconds (\<open>Inr\<close>). An answer within 5000 ms restores the endpoint.
\<close>

definition probeNode :: "string + int \<Rightarrow> RpcNode \<Rightarrow> RpcNode" where
  "probeNode probe node =
     (if \<not> isHealthy node then
        (case probe of
           Inr elapsed \<Rightarrow>
             if elapsed < 5000 then
               node\<lparr>isHealthy := True, errorCount := 0, responseTime := real_of_int elapsed\<rparr>
             else node
         | Inl err \<Rightarrow> node)
      else node)"

definition performHealthCheck :: "(nat \<Rightarrow> string + int) \<Rightarrow> 'v RpcOptimizer \<Rightarrow> 'v RpcOptimizer" where
  "performHealthCheck probes s =
     s\<lparr>nodes := map (\<lambda>(i, node). probeNode (probes i) node) (enumerate 0 (nodes s))\<rparr>"

text \<open>
  The public \<open>getBalance(address, _cacheTime)\<close> (the second argument is \<open>cacheTimeArg\<close>
  here): both purges, then the read with cache time
  0. The balance is returned as the amount in wei that \<open>ethers.formatEther\<close> prints.
\<close>

definition getBalance ::
  "string \<Rightarrow> int option \<Rightarrow> int \<Rightarrow> 'v Network \<Rightarrow> 'v RpcOptimizer
     \<Rightarrow> (string + 'v) \<times> 'v RpcOptimizer \<times> nat" where
  "getBalance address cacheTimeArg now net s =
     (let c1 = clearCacheForOperation ''getBalance'' (cache s);
          c2 = deleteKeys (\<lambda>key. includesStr key ''getBalance'' \<or> includesStr key address) c1
      in executeRequest ''getBalance'' [address] 0 now net (s\<lparr>cache := c2\<rparr>))"

text \<open>
  \<open>getBalance(address)\<close> of the blockchain service in blockchain.ts: the target is the
  argument or, when that is absent or empty, the wallet's address; the whole cache is
  cleared (\<open>clearCache\<close>) and the pool's \<open>getBalance\<close> is called with cache time 0. The
  check of the returned string cannot fail for a string that \<open>formatEther\<close> printed.
\<close>

definition BlockchainService_getBalance ::
  "string option \<Rightarrow> string option \<Rightarrow> int \<Rightarrow> 'v Network \<Rightarrow> 'v RpcOptimizer
     \<Rightarrow> (string + 'v) \<times> 'v RpcOptimizer \<times> nat" where
  "BlockchainService_getBalance address wallet now net s =
     (let targetAddress =
            (case address of Some a \<Rightarrow> if a = '''' then wallet else Some a | None \<Rightarrow> wallet)
      in case targetAddress of
           None \<Rightarrow> (Inl ''no address given and the wallet is not initialised'', s, 0)
         | Some target \<Rightarrow>
             if target = '''' then
               (Inl ''no address given and the wallet is not initialised'', s, 0)
             else getBalance target (Some 0) now net (s\<lparr>cache := Map.empty\<rparr>))"

text \<open>\<open>initializeNodes\<close>, at time \<open>now\<close>.\<close>

definition newNode :: "string \<Rightarrow> string \<Rightarrow> int \<Rightarrow> int \<Rightarrow> int \<Rightarrow> RpcNode" where
  "newNode u n w m now =
     \<lparr>url = u, name = n, weight = w, maxRequestsPerMinute = m, currentRequests = 0,
      lastResetTime = now, isHealthy = True, responseTime = 0, errorCount = 0, lastUsed = 0\<rparr>"

definition initializeNodes :: "int \<Rightarrow> RpcNode list" where
  "initializeNodes now =
     [newNode ''https://polygon-rpc.com'' ''Polygon RPC'' 3 100 now,
      newNode ''https://polygon-rpc.publicnode.com'' ''PublicNode'' 2 60 now,
      newNode ''https://polygon.llamarpc.com'' ''LlamaRPC'' 2 80 now,
      newNode ''https://polygon.drpc.org'' ''DRPC'' 1 50 now]"

subsection \<open>Relations and scenarios used in the statements about the pool\<close>

text \<open>
  What one \<open>executeRequest\<close> may do to an endpoint: an unhealthy endpoint is left alone,
  and an endpoint that loses its health flag has had its error counter raised by one, to 3
  or more.
\<close>

definition nodeStep :: "RpcNode \<Rightarrow> RpcNode \<Rightarrow> bool" where
  "nodeStep n n' =
     ((\<not> isHealthy n \<longrightarrow> n' = n) \<and>
      (isHealthy n \<and> \<not> isHealthy n' \<longrightarrow> errorCount n' = errorCount n + 1 \<and> 3 \<le> errorCount n'))"

text \<open>What one health probe may do to an endpoint.\<close>

definition probeStep :: "string + int \<Rightarrow> RpcNode \<Rightarrow> RpcNode \<Rightarrow> bool" where
  "probeStep probe n n' =
     ((isHealthy n \<longrightarrow> n' = n) \<and>
      (\<not> isHealthy n \<and> isHealthy n' \<longrightarrow>
         (\<exists>elapsed. probe = Inr elapsed \<and> elapsed < 5000) \<and> errorCount n' = 0))"

text \<open>The keys that the two purges of \<open>getBalance\<close> delete, as one function.\<close>

definition purgeBalance :: "string \<Rightarrow> 'v Cache \<Rightarrow> 'v Cache" where
  "purgeBalance address c =
     (\<lambda>key. if startsWith key ''getBalance:'' \<or> includesStr key ''getBalance'' \<or>
                includesStr key address
             then None else c key)"

text \<open>
  Concrete pools and attempts for the examples: a call that times out, a call that
  answers 7, a pool of one fresh endpoint, a pool whose first endpoint has failed twice
  and whose second endpoint is unhealthy, and pools with one cached entry.
\<close>

definition failedAttempt :: "int Attempt" where
  "failedAttempt = \<lparr>startTime = 0, outcome = Inl ''timeout'', endTime = 10\<rparr>"

definition goodAttempt :: "int Attempt" where
  "goodAttempt = \<lparr>startTime = 16001, outcome = Inr 7, endTime = 16050\<rparr>"

definition oneNodePool :: "int RpcOptimizer" where
  "oneNodePool = \<lparr>nodes = [newNode ''https://polygon-rpc.com'' ''Polygon RPC'' 3 100 0],
                  cache = Map.empty\<rparr>"

definition strainedPool :: "int RpcOptimizer" where
  "strainedPool =
     \<lparr>nodes = [(newNode ''https://polygon-rpc.com'' ''Polygon RPC'' 3 100 0)\<lparr>errorCount := 2\<rparr>,
               (newNode ''https://polygon.drpc.org'' ''DRPC'' 1 50 0)
                 \<lparr>errorCount := 3, isHealthy := False\<rparr>],
      cache = Map.empty\<rparr>"

definition gasPriceEntry :: "int CacheEntry" where
  "gasPriceEntry = \<lparr>data = 42, timestamp = 1000, ttl = 15000\<rparr>"

definition cachedPool :: "int RpcOptimizer" where
  "cachedPool = \<lparr>nodes = [newNode ''https://polygon-rpc.com'' ''Polygon RPC'' 3 100 0],
                 cache = [getCacheKey ''getGasPrice'' [] \<mapsto> gasPriceEntry]\<rparr>"

definition staleBalancePool :: "int RpcOptimizer" where
  "staleBalancePool =
     \<lparr>nodes = [newNode ''https://polygon-rpc.com'' ''Polygon RPC'' 3 100 0],
      cache = [getCacheKey ''getBalance'' [''0xabc''] \<mapsto> gasPriceEntry]\<rparr>"

text \<open>The state after one uncached balance request whose every attempt is \<open>a\<close>.\<close>

definition afterRequest :: "'v Attempt \<Rightarrow> 'v RpcOptimizer \<Rightarrow> 'v RpcOptimizer" where
  "afterRequest a s = fst (snd (executeRequest ''getBalance'' [''0xabc''] 0 0 (\<lambda>i. a) s))"

text \<open>
  The number of the attempt that reaches the endpoint at position \<open>j\<close>, if the loop gets
  that far: the number of healthy endpoints before it.
\<close>

definition attemptIndex :: "RpcNode list \<Rightarrow> nat \<Rightarrow> nat" where
  "attemptIndex ns j = length (filter isHealthy (take j ns))"

text \<open>What the loop does to an endpoint that it tries with the attempt \<open>a\<close>.\<close>

definition attemptNode :: "string \<Rightarrow> 'v Attempt \<Rightarrow> RpcNode \<Rightarrow> RpcNode" where
  "attemptNode operation a node =
     (case dispatch operation a of
        Inr v \<Rightarrow> recordSuccess (endTime a - startTime a) (markUsed (startTime a) node)
      | Inl e \<Rightarrow> recordFailure (markUsed (startTime a) node))"

text \<open>The pool of one endpoint after three failed requests.\<close>

definition downPool :: "int RpcOptimizer" where
  "downPool =
     afterRequest failedAttempt (afterRequest failedAttempt (afterRequest failedAttempt oneNodePool))"

section \<open>blockchain.ts: errors, retries and gas pricing\<close>

text \<open>
  A thrown \<open>Error\<close>: its message and its \<open>code\<close> property printed as a string (empty when
  the error has none). A call that may throw returns \<open>JsError + 'a\<close>.
\<close>

record JsError =
  message :: string
  code :: string

definition Error :: "string \<Rightarrow> JsError" where
  "Error m = \<lparr>message = m, code = ''''\<rparr>"

text \<open>\<open>REQUEST_CONFIG\<close>.\<close>

definition REQUEST_CONFIG_maxRetries :: nat where "REQUEST_CONFIG_maxRetries = 3"
definition REQUEST_CONFIG_baseDelay :: nat where "REQUEST_CONFIG_baseDelay = 1000"
definition REQUEST_CONFIG_maxDelay :: nat where "REQUEST_CONFIG_maxDelay = 30000"

definition isRateLimitError :: "JsError \<Rightarrow> bool" where
  "isRateLimitError error =
     (let errorMessage = toLowerCase (message error); errorCode = code error in
      includesStr errorMessage ''rate limit'' \<or>
      includesStr errorMessage ''too many requests'' \<or>
      includesStr errorMessage ''-32090'' \<or>
      errorCode = ''-32090'' \<or>
      includesStr errorMessage ''call rate limit exhausted'' \<or>
      includesStr errorMessage ''retry in'')"

text \<open>
  \<open>retryWithBackoff(operation, retryCount)\<close>. The operation is given by what its run
  number \<open>retryCount\<close> does; the waiting (\<open>checkRateLimit\<close>, the backoff delay) takes time
  and changes no result, so it is not part of the model.
\<close>

function retryWithBackoff :: "(nat \<Rightarrow> JsError + 'a) \<Rightarrow> nat \<Rightarrow> JsError + 'a" where
  "retryWithBackoff operation retryCount =
     (case operation retryCount of
        Inr v \<Rightarrow> Inr v
      | Inl error \<Rightarrow>
          if isRateLimitError error \<and> retryCount < REQUEST_CONFIG_maxRetries then
            retryWithBackoff operation (retryCount + 1)
          else if isRateLimitError error then
            Inl (Error ''API request rate too high, try again later'')
          else Inl error)"
  by pat_completeness auto
termination
  by (relation "measure (\<lambda>(operation, retryCount). REQUEST_CONFIG_maxRetries - retryCount)") auto

text \<open>
  JavaScript numbers are modelled as reals. Where the source leaves exact arithmetic, in
  \<open>Number(bigint)\<close>, in a product of numbers and in a decimal literal, the rounding to a
  double is the parameter \<open>rnd\<close>; \<open>Math.floor\<close>, \<open>Math.max\<close> and \<open>BigInt\<close> of an integral
  number are exact.
\<close>

type_synonym rounding = "real \<Rightarrow> real"

datatype GasStrategy = Fast | Standard | Safe | Custom

text \<open>\<open>GAS_STRATEGIES\<close>: the literals 1.5, 1.2, 1.0 and 1.0.\<close>

definition GAS_STRATEGIES :: "rounding \<Rightarrow> GasStrategy \<Rightarrow> real" where
  "GAS_STRATEGIES rnd strategy =
     rnd (case strategy of Fast \<Rightarrow> 3 / 2 | Standard \<Rightarrow> 6 / 5 | Safe \<Rightarrow> 1 | Custom \<Rightarrow> 1)"

text \<open>\<open>interface CustomGasConfig\<close>; \<open>customGasLimit\<close> is its optional \<open>gasLimit\<close>.\<close>

record CustomGasConfig =
  gasMultiplier :: real
  customGasLimit :: "int option"
  crazyMode :: bool

text \<open>\<open>ethers.FeeData\<close>: each field is a bigint or \<open>null\<close>.\<close>

record FeeData =
  feeGasPrice :: "int option"
  feeMaxFeePerGas :: "int option"
  feeMaxPriorityFeePerGas :: "int option"

text \<open>\<open>interface GasEstimate\<close>.\<close>

record GasEstimate =
  gasLimit :: int
  gasPrice :: int
  maxFeePerGas :: "int option"
  maxPriorityFeePerGas :: "int option"
  totalCost :: int

text \<open>\<open>BigInt(Math.floor(Number(price) * multiplier))\<close>.\<close>

definition scalePrice :: "rounding \<Rightarrow> int \<Rightarrow> real \<Rightarrow> int" where
  "scalePrice rnd price multiplier = \<lfloor>rnd (rnd (real_of_int price) * multiplier)\<rfloor>"

text \<open>
  The multiplier of \<open>estimateGas\<close> and of \<open>estimateTokenGas\<close> (the same lines in both):
  the strategy's entry, replaced under the custom strategy with a configuration by the
  configured multiplier, raised to 5 in crazy mode.
\<close>

definition gasMultiplierOf :: "rounding \<Rightarrow> GasStrategy \<Rightarrow> CustomGasConfig option \<Rightarrow> real" where
  "gasMultiplierOf rnd gasStrategy customGasConfig =
     (case customGasConfig of
        Some cfg \<Rightarrow>
          if gasStrategy = Custom then
            (if crazyMode cfg then max (gasMultiplier cfg) 5 else gasMultiplier cfg)
          else GAS_STRATEGIES rnd gasStrategy
      | None \<Rightarrow> GAS_STRATEGIES rnd gasStrategy)"

text \<open>
  The gas limit in use: the configured one under the custom strategy when it is present
  and not \<open>0n\<close> (which JavaScript takes for false), else the estimated one.
\<close>

definition finalGasLimitOf :: "GasStrategy \<Rightarrow> CustomGasConfig option \<Rightarrow> int \<Rightarrow> int" where
  "finalGasLimitOf gasStrategy customGasConfig estimated =
     (case customGasConfig of
        Some cfg \<Rightarrow>
          (case customGasLimit cfg of
             Some g \<Rightarrow> if gasStrategy = Custom \<and> g \<noteq> 0 then g else estimated
           | None \<Rightarrow> estimated)
      | None \<Rightarrow> estimated)"

text \<open>A bigint-or-null in a condition: true when present and not zero.\<close>

definition truthy :: "int option \<Rightarrow> bool" where
  "truthy x = (case x of Some v \<Rightarrow> v \<noteq> 0 | None \<Rightarrow> False)"

text \<open>
  What \<open>estimateGas\<close> and \<open>estimateTokenGas\<close> compute from the estimated gas limit and the
  fee data: the EIP-1559 shape when both of its fields are set, else the legacy price.
\<close>

definition priceGas ::
  "rounding \<Rightarrow> int \<Rightarrow> FeeData \<Rightarrow> GasStrategy \<Rightarrow> CustomGasConfig option \<Rightarrow> GasEstimate" where
  "priceGas rnd estimated feeData gasStrategy customGasConfig =
     (let multiplier = gasMultiplierOf rnd gasStrategy customGasConfig;
          finalGasLimit = finalGasLimitOf gasStrategy customGasConfig estimated
      in if truthy (feeMaxFeePerGas feeData) \<and> truthy (feeMaxPriorityFeePerGas feeData) then
           (let maxFee = scalePrice rnd (the (feeMaxFeePerGas feeData)) multiplier;
                maxPriority = scalePrice rnd (the (feeMaxPriorityFeePerGas feeData)) multiplier
            in \<lparr>gasLimit = finalGasLimit, gasPrice = maxFee, maxFeePerGas = Some maxFee,
                maxPriorityFeePerGas = Some maxPriority, totalCost = finalGasLimit * maxFee\<rparr>)
         else
           (let baseGasPrice = (case feeGasPrice feeData of Some p \<Rightarrow> p | None \<Rightarrow> 0);
                price = scalePrice rnd baseGasPrice multiplier
            in \<lparr>gasLimit = finalGasLimit, gasPrice = price, maxFeePerGas = None,
                maxPriorityFeePerGas = None, totalCost = finalGasLimit * price\<rparr>))"

text \<open>
  What the chain answers during one run of a gas estimation: the estimated gas limit and
  the fee data, each of which may throw.
\<close>

record GasAnswers =
  estimateGasAnswer :: "JsError + int"
  feeDataAnswer :: "JsError + FeeData"

text \<open>
  One run of the operation inside \<open>estimateGas\<close>. \<open>wallet\<close> is the address of the
  initialised wallet, \<open>value\<close> is what \<open>ethers.parseEther(amount)\<close> does.
\<close>

definition estimateGasOnce ::
  "rounding \<Rightarrow> string option \<Rightarrow> JsError + int \<Rightarrow> GasAnswers \<Rightarrow> GasStrategy
     \<Rightarrow> CustomGasConfig option \<Rightarrow> JsError + GasEstimate" where
  "estimateGasOnce rnd wallet value answers gasStrategy customGasConfig =
     (case wallet of
        None \<Rightarrow> Inl (Error ''wallet not initialised'')
      | Some w \<Rightarrow>
          (case value of
             Inl e \<Rightarrow> Inl e
           | Inr v \<Rightarrow>
               (case estimateGasAnswer answers of
                  Inl e \<Rightarrow> Inl e
                | Inr estimated \<Rightarrow>
                    (case feeDataAnswer answers of
                       Inl e \<Rightarrow> Inl e
                     | Inr feeData \<Rightarrow>
                         Inr (priceGas rnd estimated feeData gasStrategy customGasConfig)))))"

text \<open>\<open>estimateGas\<close>: the run, retried on rate-limit errors; run \<open>n\<close> sees \<open>answers n\<close>.\<close>

definition estimateGas ::
  "rounding \<Rightarrow> string option \<Rightarrow> JsError + int \<Rightarrow> (nat \<Rightarrow> GasAnswers) \<Rightarrow> GasStrategy
     \<Rightarrow> CustomGasConfig option \<Rightarrow> JsError + GasEstimate" where
  "estimateGas rnd wallet value answers gasStrategy customGasConfig =
     retryWithBackoff
       (\<lambda>n. estimateGasOnce rnd wallet value (answers n) gasStrategy customGasConfig) 0"

text \<open>
  \<open>estimateTokenGas\<close>: \<open>value\<close> stands for reading the token's decimals and parsing the
  amount with them; every error becomes the one message of the \<open>catch\<close> block.
\<close>

definition estimateTokenGas ::
  "rounding \<Rightarrow> string option \<Rightarrow> JsError + int \<Rightarrow> GasAnswers \<Rightarrow> GasStrategy
     \<Rightarrow> CustomGasConfig option \<Rightarrow> JsError + GasEstimate" where
  "estimateTokenGas rnd wallet value answers gasStrategy customGasConfig =
     (case estimateGasOnce rnd wallet value answers gasStrategy customGasConfig of
        Inl e \<Rightarrow> Inl (Error ''token gas estimation failed'')
      | Inr g \<Rightarrow> Inr g)"

section \<open>akasdao.ts: gas for the silence operation\<close>

text \<open>
  The \<open>gasConfig\<close> argument of \<open>estimateSilenceGas\<close>; every field is optional. The gas
  limit is a string: \<open>None\<close> when it is absent or empty, else what \<open>BigInt\<close> makes of it.
\<close>

record SilenceGasConfig =
  silenceGasLimit :: "(JsError + int) option"
  silenceGasStrategy :: "GasStrategy option"
  silenceGasMultiplier :: "real option"
  rescueMode :: "bool option"
  rescueGasMultiplier :: "real option"

text \<open>An optional number in a condition: true when present and not zero.\<close>

definition truthyNumber :: "real option \<Rightarrow> bool" where
  "truthyNumber x = (case x of Some v \<Rightarrow> v \<noteq> 0 | None \<Rightarrow> False)"

text \<open>The multiplier of \<open>estimateSilenceGas\<close>.\<close>

definition silenceMultiplierOf :: "SilenceGasConfig \<Rightarrow> real" where
  "silenceMultiplierOf gasConfig =
     (if rescueMode gasConfig = Some True \<and> truthyNumber (rescueGasMultiplier gasConfig) then
        the (rescueGasMultiplier gasConfig)
      else if truthyNumber (silenceGasMultiplier gasConfig) then
        the (silenceGasMultiplier gasConfig)
      else 1)"

text \<open>What \<open>estimateSilenceGas\<close> returns: a gas limit and whichever price fields it set.\<close>

record SilenceGasEstimate =
  sGasLimit :: int
  sGasPrice :: "int option"
  sMaxFeePerGas :: "int option"
  sMaxPriorityFeePerGas :: "int option"

definition estimateSilenceGas ::
  "rounding \<Rightarrow> JsError + int \<Rightarrow> GasAnswers \<Rightarrow> SilenceGasConfig \<Rightarrow> SilenceGasEstimate" where
  "estimateSilenceGas rnd amountWei answers gasConfig =
     (let fallback = \<lparr>sGasLimit = 300000, sGasPrice = None, sMaxFeePerGas = None,
                      sMaxPriorityFeePerGas = None\<rparr>
      in case amountWei of
           Inl e \<Rightarrow> fallback
         | Inr amount \<Rightarrow>
        (case estimateGasAnswer answers of
           Inl e \<Rightarrow> fallback
         | Inr estimatedGasLimit \<Rightarrow>
        (case feeDataAnswer answers of
           Inl e \<Rightarrow> fallback
         | Inr feeData \<Rightarrow>
        (let multiplier = silenceMultiplierOf gasConfig in
         case (case silenceGasLimit gasConfig of
                 Some parsed \<Rightarrow> parsed
               | None \<Rightarrow> Inr estimatedGasLimit) of
           Inl e \<Rightarrow> fallback
         | Inr finalGasLimit \<Rightarrow>
             if truthy (feeMaxFeePerGas feeData) \<and> truthy (feeMaxPriorityFeePerGas feeData) then
               \<lparr>sGasLimit = finalGasLimit, sGasPrice = None,
                sMaxFeePerGas = Some (scalePrice rnd (the (feeMaxFeePerGas feeData)) multiplier),
                sMaxPriorityFeePerGas =
                  Some (scalePrice rnd (the (feeMaxPriorityFeePerGas feeData)) multiplier)\<rparr>
             else
               \<lparr>sGasLimit = finalGasLimit,
                sGasPrice = Some (scalePrice rnd
                  (case feeGasPrice feeData of Some p \<Rightarrow> p | None \<Rightarrow> 0) multiplier),
                sMaxFeePerGas = None, sMaxPriorityFeePerGas = None\<rparr>))))"

subsection \<open>Predicates and scenarios used in the statements about gas\<close>

text \<open>Fee data as a chain reports it: no field is negative.\<close>

definition feesNonNegative :: "FeeData \<Rightarrow> bool" where
  "feesNonNegative feeData =
     ((case feeGasPrice feeData of Some p \<Rightarrow> 0 \<le> p | None \<Rightarrow> True) \<and>
      (case feeMaxFeePerGas feeData of Some p \<Rightarrow> 0 \<le> p | None \<Rightarrow> True) \<and>
      (case feeMaxPriorityFeePerGas feeData of Some p \<Rightarrow> 0 \<le> p | None \<Rightarrow> True))"

text \<open>The price per unit of gas that \<open>priceGas\<close> scales: the maximum fee when both EIP-1559
  fields are set, else the legacy gas price (0 when it is \<open>null\<close>).\<close>

definition effectivePrice :: "FeeData \<Rightarrow> int" where
  "effectivePrice feeData =
     (if truthy (feeMaxFeePerGas feeData) \<and> truthy (feeMaxPriorityFeePerGas feeData)
      then the (feeMaxFeePerGas feeData)
      else (case feeGasPrice feeData of Some p \<Rightarrow> p | None \<Rightarrow> 0))"

text \<open>
  Examples: fee data with and without the EIP-1559 fields, a chain that estimates 21000
  gas, and the silence configuration of the rescue mode with the store's default rescue
  multiplier 3.
\<close>

definition legacyFees :: FeeData where
  "legacyFees = \<lparr>feeGasPrice = Some 30000000000, feeMaxFeePerGas = None,
                 feeMaxPriorityFeePerGas = None\<rparr>"

definition marketFees :: FeeData where
  "marketFees = \<lparr>feeGasPrice = Some 30000000000, feeMaxFeePerGas = Some 40000000000,
                 feeMaxPriorityFeePerGas = Some 30000000000\<rparr>"

definition calmChain :: GasAnswers where
  "calmChain = \<lparr>estimateGasAnswer = Inr 21000, feeDataAnswer = Inr marketFees\<rparr>"

definition rescueConfig :: SilenceGasConfig where
  "rescueConfig = \<lparr>silenceGasLimit = None, silenceGasStrategy = Some Custom,
                   silenceGasMultiplier = Some 1, rescueMode = Some True,
                   rescueGasMultiplier = Some 3\<rparr>"

text \<open>
  The price fields of an estimate are the fee data scaled by the multiplier \<open>m\<close>: with both
  EIP-1559 fields set, the maximum fee and the priority fee are each scaled and the gas
  price is the scaled maximum fee; otherwise only the legacy gas price (0 when \<open>null\<close>) is
  scaled and the EIP-1559 fields are absent. The estimate of the silence operation has no
  gas price in the first case.
\<close>

definition pricedWith :: "rounding \<Rightarrow> FeeData \<Rightarrow> real \<Rightarrow> GasEstimate \<Rightarrow> bool" where
  "pricedWith rnd feeData m g =
     (if truthy (feeMaxFeePerGas feeData) \<and> truthy (feeMaxPriorityFeePerGas feeData) then
        gasPrice g = scalePrice rnd (the (feeMaxFeePerGas feeData)) m \<and>
        maxFeePerGas g = Some (scalePrice rnd (the (feeMaxFeePerGas feeData)) m) \<and>
        maxPriorityFeePerGas g = Some (scalePrice rnd (the (feeMaxPriorityFeePerGas feeData)) m)
      else
        gasPrice g =
          scalePrice rnd (case feeGasPrice feeData of Some p \<Rightarrow> p | None \<Rightarrow> 0) m \<and>
        maxFeePerGas g = None \<and> maxPriorityFeePerGas g = None)"

definition silencePricedWith ::
  "rounding \<Rightarrow> FeeData \<Rightarrow> real \<Rightarrow> SilenceGasEstimate \<Rightarrow> bool" where
  "silencePricedWith rnd feeData m g =
     (if truthy (feeMaxFeePerGas feeData) \<and> truthy (feeMaxPriorityFeePerGas feeData) then
        sGasPrice g = None \<and>
        sMaxFeePerGas g = Some (scalePrice rnd (the (feeMaxFeePerGas feeData)) m) \<and>
        sMaxPriorityFeePerGas g =
          Some (scalePrice rnd (the (feeMaxPriorityFeePerGas feeData)) m)
      else
        sGasPrice g =
          Some (scalePrice rnd (case feeGasPrice feeData of Some p \<Rightarrow> p | None \<Rightarrow> 0) m) \<and>
        sMaxFeePerGas g = None \<and> sMaxPriorityFeePerGas g = None)"

text \<open>A custom configuration with the crazy flag set and the multiplier 3.\<close>

definition crazyConfig :: CustomGasConfig where
  "crazyConfig = \<lparr>gasMultiplier = 3, customGasLimit = None, crazyMode = True\<rparr>"

section \<open>blockchain.ts: preflight, submission and the maximum transfer\<close>

text \<open>
  Amounts are bigints in the smallest unit (wei, or the token's base unit). A decimal
  string that the source passes around (\<open>amount\<close>, \<open>balance\<close>, \<open>formattedBalance\<close>,
  \<open>maxAmount\<close>) is modelled by the amount it denotes, since \<open>ethers.formatEther\<close> and
  \<open>ethers.parseEther\<close> (and \<open>formatUnits\<close>, \<open>parseUnits\<close>) are inverse on the strings
  the code produces; parsing a string that comes from the caller may throw, so such an
  amount is given as \<open>JsError + int\<close>. \<open>ethers.isAddress\<close> is a parameter.
\<close>

text \<open>A transaction receipt: \<open>status\<close> is 1, 0 or \<open>null\<close>.\<close>

record Receipt =
  status :: "int option"
  receiptGasUsed :: int
  receiptGasPrice :: "int option"
  blockNumber :: int

text \<open>
  What the chain and the signer answer during one attempt: each read or write that the
  code awaits either throws or resolves.
\<close>

record ChainAnswers =
  codeAnswer :: "JsError + string"
  receiveProbeAnswer :: "JsError + unit"
  gasRuns :: "nat \<Rightarrow> GasAnswers"
  balanceAnswer :: "JsError + int"
  blockNumberAnswer :: "JsError + int"
  networkFeeAnswer :: "JsError + FeeData"
  nonceAnswer :: "JsError + int"
  sendAnswer :: "JsError + string"
  waitAnswer :: "JsError + Receipt option"
  tokenCodeAnswer :: "JsError + string"
  erc20ProbeAnswer :: "JsError + unit"
  tokenBalanceAnswer :: "JsError + int"

text \<open>The result of \<open>preflightTransaction\<close>.\<close>

record PreflightResult =
  isValid :: bool
  warnings :: "string list"
  errors :: "string list"
  gasEstimate :: "GasEstimate option"

text \<open>
  \<open>preflightTransaction(to, amount, gasStrategy, customGasConfig)\<close>; \<open>wallet\<close> is the
  address of the initialised wallet and \<open>value\<close> what \<open>ethers.parseEther(amount)\<close> does.
  The checks are, in the source's order: wallet, address syntax, amount, contract code,
  gas estimate, balance, network state, nonce. Whatever throws on the way is caught and
  becomes the single error \<open>preflight failed\<close>.
\<close>

definition preflightFailed :: "string list \<Rightarrow> JsError \<Rightarrow> PreflightResult" where
  "preflightFailed ws e =
     \<lparr>isValid = False, warnings = ws, errors = [''preflight failed: '' @ message e],
      gasEstimate = None\<rparr>"

definition preflightRejected :: "string \<Rightarrow> PreflightResult" where
  "preflightRejected m = \<lparr>isValid = False, warnings = [], errors = [m], gasEstimate = None\<rparr>"

definition preflightTransaction ::
  "rounding \<Rightarrow> (string \<Rightarrow> bool) \<Rightarrow> string option \<Rightarrow> string \<Rightarrow> JsError + int \<Rightarrow> GasStrategy
     \<Rightarrow> CustomGasConfig option \<Rightarrow> ChainAnswers \<Rightarrow> PreflightResult" where
  "preflightTransaction rnd isAddress wallet to value gasStrategy customGasConfig w =
     (case wallet of
        None \<Rightarrow> preflightRejected ''wallet not initialised''
      | Some walletAddress \<Rightarrow>
     if \<not> isAddress to then preflightRejected ''invalid target address''
     else
     (case value of
        Inl e \<Rightarrow> preflightFailed [] e
      | Inr v \<Rightarrow>
     if v \<le> 0 then preflightRejected ''transfer amount must be greater than 0''
     else
     (case codeAnswer w of
        Inl e \<Rightarrow> preflightFailed [] e
      | Inr bytecode \<Rightarrow>
     (let isContract = (bytecode \<noteq> ''0x'');
          warnings1 =
            (if isContract then
               [''target address is a contract: '' @ to] @
               (case receiveProbeAnswer w of
                  Inl e \<Rightarrow> [''contract may not accept native transfers'']
                | Inr u \<Rightarrow> [])
             else [])
      in
     (case estimateGas rnd wallet value (gasRuns w) gasStrategy customGasConfig of
        Inl e \<Rightarrow> preflightFailed warnings1 e
      | Inr estimate \<Rightarrow>
     (let estimate' =
            (if isContract then
               estimate\<lparr>gasLimit := scalePrice rnd (gasLimit estimate) (rnd (6 / 5))\<rparr>
             else estimate);
          warnings2 =
            warnings1 @ (if isContract then [''gas limit raised by 20% for the contract''] else [])
      in
     (case balanceAnswer w of
        Inl e \<Rightarrow> preflightFailed warnings2 e
      | Inr balanceWei \<Rightarrow>
     (let totalRequired = v + totalCost estimate' in
      if balanceWei < totalRequired then
        \<lparr>isValid = False, warnings = warnings2, errors = [''insufficient balance''],
         gasEstimate = Some estimate'\<rparr>
      else
     (let warnings3 =
            warnings2 @
            (case blockNumberAnswer w of
               Inl e \<Rightarrow> [''cannot read the network state'']
             | Inr n \<Rightarrow>
                 (case networkFeeAnswer w of
                    Inl e \<Rightarrow> [''cannot read the network state'']
                  | Inr feeData \<Rightarrow>
                      if \<not> truthy (feeGasPrice feeData) then [''abnormal network gas price'']
                      else []));
          warnings4 =
            warnings3 @
            (case nonceAnswer w of Inl e \<Rightarrow> [''cannot read the current nonce''] | Inr n \<Rightarrow> []);
          errs = []
      in \<lparr>isValid = (length errs = 0), warnings = warnings4, errors = errs,
          gasEstimate = Some estimate'\<rparr>)))))))))"

text \<open>\<open>interface TransactionResult\<close>.\<close>

record TransactionResult =
  hash :: string
  success :: bool
  gasUsed :: "int option"
  txGasPrice :: "int option"
  errorText :: "string option"

text \<open>\<open>isRetryableError\<close>: a keyword of the list occurs in the lower-cased message.\<close>

definition retryableErrors :: "string list" where
  "retryableErrors =
     [''NONCE_EXPIRED'', ''REPLACEMENT_UNDERPRICED'', ''UNPREDICTABLE_GAS_LIMIT'',
      ''network'', ''timeout'', ''rate limit'', ''temporary'']"

definition isRetryableError :: "JsError \<Rightarrow> bool" where
  "isRetryableError e =
     (let errorMessage = toLowerCase (message e)
      in list_ex (\<lambda>keyword. includesStr errorMessage (toLowerCase keyword)) retryableErrors)"

text \<open>
  \<open>retryTransaction(operation, maxRetries)\<close>: the loop over \<open>attempt = 1 .. maxRetries\<close>.
  The operation is given by what its run number \<open>attempt\<close> does. The result is what the
  call returns or throws (\<open>None\<close> is the \<open>null\<close> thrown when the loop body never ran),
  together with the number of times the operation was run. The delay between attempts
  takes time only.
\<close>

function retryLoop ::
  "(nat \<Rightarrow> JsError + 'a) \<Rightarrow> nat \<Rightarrow> nat \<Rightarrow> JsError option \<Rightarrow> (JsError option + 'a) \<times> nat" where
  "retryLoop operation maxRetries attempt lastError =
     (if attempt \<le> maxRetries then
        (case operation attempt of
           Inr v \<Rightarrow> (Inr v, attempt)
         | Inl e \<Rightarrow>
             if \<not> isRetryableError e \<or> attempt = maxRetries then (Inl (Some e), attempt)
             else retryLoop operation maxRetries (attempt + 1) (Some e))
      else (Inl lastError, attempt - 1))"
  by pat_completeness auto
termination
  by (relation "measure (\<lambda>(operation, maxRetries, attempt, lastError). Suc maxRetries - attempt)")
    auto

definition retryTransaction ::
  "(nat \<Rightarrow> JsError + 'a) \<Rightarrow> nat \<Rightarrow> (JsError option + 'a) \<times> nat" where
  "retryTransaction operation maxRetries = retryLoop operation maxRetries 1 None"

text \<open>
  The \<open>try\<close> block of the operation inside \<open>sendTransaction\<close>: preflight, building the
  transaction, signing and broadcasting, and waiting for one confirmation.
\<close>

definition sendTransactionBody ::
  "rounding \<Rightarrow> (string \<Rightarrow> bool) \<Rightarrow> string option \<Rightarrow> string \<Rightarrow> JsError + int \<Rightarrow> GasStrategy
     \<Rightarrow> CustomGasConfig option \<Rightarrow> ChainAnswers \<Rightarrow> JsError + TransactionResult" where
  "sendTransactionBody rnd isAddress wallet to value gasStrategy customGasConfig w =
     (let preflight = preflightTransaction rnd isAddress wallet to value gasStrategy customGasConfig w
      in if \<not> isValid preflight then
           Inl (Error (''transaction preflight failed: '' @ joinWith '', '' (errors preflight)))
         else
         (case gasEstimate preflight of
            None \<Rightarrow> Inl (Error ''cannot read properties of undefined'')
          | Some estimate \<Rightarrow>
         (case value of
            Inl e \<Rightarrow> Inl e
          | Inr v \<Rightarrow>
         (case sendAnswer w of
            Inl e \<Rightarrow> Inl e
          | Inr txHash \<Rightarrow>
         (case waitAnswer w of
            Inl e \<Rightarrow> Inl e
          | Inr None \<Rightarrow> Inl (Error ''transaction confirmation failed'')
          | Inr (Some receipt) \<Rightarrow>
              if status receipt = Some 0 then
                Inl (Error ''transaction execution failed, it may have been reverted'')
              else
                Inr \<lparr>hash = txHash, success = (status receipt = Some 1),
                     gasUsed = Some (receiptGasUsed receipt),
                     txGasPrice = Some (if truthy (receiptGasPrice receipt)
                                        then the (receiptGasPrice receipt)
                                        else gasPrice estimate),
                     errorText = None\<rparr>)))))"

text \<open>The message that the \<open>catch\<close> block of \<open>sendTransaction\<close> puts into its result.\<close>

definition describeSendError :: "string \<Rightarrow> string" where
  "describeSendError errorMessage =
     (if includesStr errorMessage ''CALL_EXCEPTION'' then
        ''contract call failed, the address may be invalid''
      else if includesStr errorMessage ''INSUFFICIENT_FUNDS'' then
        ''insufficient balance to pay the transaction fee''
      else if includesStr errorMessage ''NONCE_EXPIRED'' then
        ''the transaction nonce has expired, please try again''
      else if includesStr errorMessage ''REPLACEMENT_UNDERPRICED'' then
        ''the gas price of the replacing transaction is too low''
      else if includesStr errorMessage ''UNPREDICTABLE_GAS_LIMIT'' then
        ''cannot predict the gas limit, the contract call may fail''
      else errorMessage)"

definition failedResult :: "string \<Rightarrow> TransactionResult" where
  "failedResult m =
     \<lparr>hash = '''', success = False, gasUsed = None, txGasPrice = None, errorText = Some m\<rparr>"

text \<open>
  The operation that \<open>sendTransaction\<close> hands to \<open>retryTransaction\<close>: the \<open>try\<close> block,
  and a \<open>catch\<close> block that returns a failed result for whatever was thrown.
\<close>

definition sendTransactionOnce ::
  "rounding \<Rightarrow> (string \<Rightarrow> bool) \<Rightarrow> string option \<Rightarrow> string \<Rightarrow> JsError + int \<Rightarrow> GasStrategy
     \<Rightarrow> CustomGasConfig option \<Rightarrow> ChainAnswers \<Rightarrow> JsError + TransactionResult" where
  "sendTransactionOnce rnd isAddress wallet to value gasStrategy customGasConfig w =
     (case sendTransactionBody rnd isAddress wallet to value gasStrategy customGasConfig w of
        Inr result \<Rightarrow> Inr result
      | Inl e \<Rightarrow> Inr (failedResult (describeSendError (message e))))"

text \<open>\<open>sendTransaction\<close>: attempt \<open>n\<close> meets the answers \<open>answers n\<close>.\<close>

definition sendTransaction ::
  "rounding \<Rightarrow> (string \<Rightarrow> bool) \<Rightarrow> string option \<Rightarrow> string \<Rightarrow> JsError + int \<Rightarrow> GasStrategy
     \<Rightarrow> CustomGasConfig option \<Rightarrow> (nat \<Rightarrow> ChainAnswers)
     \<Rightarrow> (JsError option + TransactionResult) \<times> nat" where
  "sendTransaction rnd isAddress wallet to value gasStrategy customGasConfig answers =
     retryTransaction
       (\<lambda>attempt. sendTransactionOnce rnd isAddress wallet to value gasStrategy customGasConfig
                    (answers attempt))
       3"

text \<open>
  The \<open>try\<close> block of the operation inside \<open>sendTokenTransaction\<close>. \<open>value\<close> stands for
  reading the token's decimals and parsing the amount with them.
\<close>

definition sendTokenTransactionBody ::
  "rounding \<Rightarrow> (string \<Rightarrow> bool) \<Rightarrow> string option \<Rightarrow> string \<Rightarrow> string \<Rightarrow> JsError + int
     \<Rightarrow> GasStrategy \<Rightarrow> CustomGasConfig option \<Rightarrow> ChainAnswers \<Rightarrow> JsError + TransactionResult" where
  "sendTokenTransactionBody rnd isAddress wallet tokenAddress to value gasStrategy customGasConfig w =
     (case wallet of
        None \<Rightarrow> Inl (Error ''wallet not initialised'')
      | Some walletAddress \<Rightarrow>
     if \<not> isAddress tokenAddress then Inl (Error ''invalid token contract address'')
     else if \<not> isAddress to then Inl (Error ''invalid target address'')
     else
     (case tokenCodeAnswer w of
        Inl e \<Rightarrow> Inl e
      | Inr contractCode \<Rightarrow>
     if contractCode = ''0x'' then Inl (Error ''token contract does not exist'')
     else
     (case erc20ProbeAnswer w of
        Inl e \<Rightarrow> Inl (Error ''contract does not support the ERC-20 interface'')
      | Inr u \<Rightarrow>
     (case value of
        Inl e \<Rightarrow> Inl e
      | Inr v \<Rightarrow>
     if v \<le> 0 then Inl (Error ''transfer amount must be greater than 0'')
     else
     (case tokenBalanceAnswer w of
        Inl e \<Rightarrow> Inl e
      | Inr balanceWei \<Rightarrow>
     if balanceWei < v then Inl (Error ''insufficient token balance'')
     else
     (case estimateTokenGas rnd wallet value (gasRuns w 0) gasStrategy customGasConfig of
        Inl e \<Rightarrow> Inl e
      | Inr estimate \<Rightarrow>
     (case balanceAnswer w of
        Inl e \<Rightarrow> Inl e
      | Inr ethBalanceWei \<Rightarrow>
     if ethBalanceWei < totalCost estimate then
       Inl (Error ''insufficient native balance to pay for gas'')
     else
     (case sendAnswer w of
        Inl e \<Rightarrow> Inl e
      | Inr txHash \<Rightarrow>
     (case waitAnswer w of
        Inl e \<Rightarrow> Inl e
      | Inr None \<Rightarrow> Inl (Error ''transaction confirmation failed'')
      | Inr (Some receipt) \<Rightarrow>
          if status receipt = Some 0 then
            Inl (Error ''token transfer failed, it may have been reverted'')
          else
            Inr \<lparr>hash = txHash, success = (status receipt = Some 1),
                 gasUsed = Some (receiptGasUsed receipt),
                 txGasPrice = Some (if truthy (receiptGasPrice receipt)
                                    then the (receiptGasPrice receipt)
                                    else gasPrice estimate),
                 errorText = None\<rparr>)))))))))"

definition describeTokenSendError :: "string \<Rightarrow> string" where
  "describeTokenSendError errorMessage =
     (if includesStr errorMessage ''CALL_EXCEPTION'' then
        ''token contract call failed, the address may be invalid''
      else if includesStr errorMessage ''INSUFFICIENT_FUNDS'' then
        ''insufficient native balance to pay for gas''
      else if includesStr errorMessage ''UNPREDICTABLE_GAS_LIMIT'' then
        ''cannot predict the gas limit, the token contract call may fail''
      else if includesStr errorMessage ''execution reverted'' then
        ''the token transfer was reverted by the contract''
      else errorMessage)"

definition sendTokenTransactionOnce ::
  "rounding \<Rightarrow> (string \<Rightarrow> bool) \<Rightarrow> string option \<Rightarrow> string \<Rightarrow> string \<Rightarrow> JsError + int
     \<Rightarrow> GasStrategy \<Rightarrow> CustomGasConfig option \<Rightarrow> ChainAnswers \<Rightarrow> JsError + TransactionResult" where
  "sendTokenTransactionOnce rnd isAddress wallet tokenAddress to value gasStrategy customGasConfig w =
     (case sendTokenTransactionBody rnd isAddress wallet tokenAddress to value gasStrategy
             customGasConfig w of
        Inr result \<Rightarrow> Inr result
      | Inl e \<Rightarrow> Inr (failedResult (describeTokenSendError (message e))))"

definition sendTokenTransaction ::
  "rounding \<Rightarrow> (string \<Rightarrow> bool) \<Rightarrow> string option \<Rightarrow> string \<Rightarrow> string \<Rightarrow> JsError + int
     \<Rightarrow> GasStrategy \<Rightarrow> CustomGasConfig option \<Rightarrow> (nat \<Rightarrow> ChainAnswers)
     \<Rightarrow> (JsError option + TransactionResult) \<times> nat" where
  "sendTokenTransaction rnd isAddress wallet tokenAddress to value gasStrategy customGasConfig answers =
     retryTransaction
       (\<lambda>attempt. sendTokenTransactionOnce rnd isAddress wallet tokenAddress to value gasStrategy
                    customGasConfig (answers attempt))
       3"

text \<open>The result of \<open>calculateMaxTransferAmount\<close>.\<close>

datatype TransferType = Native | Token

record MaxTransfer =
  maxAmount :: int
  maxGasEstimate :: GasEstimate
  availableBalance :: int
  canTransfer :: bool

text \<open>
  The \<open>try\<close> block of \<open>calculateMaxTransferAmount\<close>. For a token, \<open>minTokenValue\<close> stands
  for parsing the probe amount \<open>0.000001\<close> with the token's decimals; for the native coin
  the probe amount \<open>0.001\<close> is 10^15 wei.
\<close>

definition calculateMaxBody ::
  "rounding \<Rightarrow> (string \<Rightarrow> bool) \<Rightarrow> string option \<Rightarrow> string \<Rightarrow> TransferType \<Rightarrow> string option
     \<Rightarrow> GasStrategy \<Rightarrow> CustomGasConfig option \<Rightarrow> JsError + int \<Rightarrow> ChainAnswers
     \<Rightarrow> JsError + MaxTransfer" where
  "calculateMaxBody rnd isAddress wallet to transferType tokenAddress gasStrategy customGasConfig
     minTokenValue w =
     (case wallet of
        None \<Rightarrow> Inl (Error ''wallet not initialised, import the private key first'')
      | Some fromAddress \<Rightarrow>
     if to = '''' \<or> \<not> isAddress to then Inl (Error ''invalid target address format'')
     else if fromAddress \<noteq> '''' \<and> toLowerCase to = toLowerCase fromAddress then
       Inl (Error ''cannot transfer to your own address'')
     else
     (case blockNumberAnswer w of
        Inl e \<Rightarrow> Inl (Error ''network connection failed, check the network state'')
      | Inr n \<Rightarrow>
     if transferType = Token then
       (if tokenAddress = None \<or> tokenAddress = Some '''' then
          Inl (Error ''token address must not be empty'')
        else
        (case tokenBalanceAnswer w of
           Inl e \<Rightarrow> Inl e
         | Inr tokenBalance \<Rightarrow>
        (case balanceAnswer w of
           Inl e \<Rightarrow> Inl e
         | Inr ethBalanceWei \<Rightarrow>
        (case estimateTokenGas rnd wallet minTokenValue (gasRuns w 0) gasStrategy
                customGasConfig of
           Inl e \<Rightarrow> Inl e
         | Inr estimate \<Rightarrow>
             (let canPayGas = (ethBalanceWei \<ge> totalCost estimate)
              in Inr \<lparr>maxAmount = (if canPayGas then tokenBalance else 0),
                      maxGasEstimate = estimate,
                      availableBalance = tokenBalance,
                      canTransfer = (canPayGas \<and> tokenBalance > 0)\<rparr>)))))
     else
       (case balanceAnswer w of
          Inl e \<Rightarrow> Inl e
        | Inr balanceWei \<Rightarrow>
       (case estimateGas rnd wallet (Inr (10 ^ 15)) (gasRuns w) gasStrategy customGasConfig of
          Inl e \<Rightarrow> Inl e
        | Inr estimate \<Rightarrow>
            (let maxAmountWei = balanceWei - totalCost estimate
             in Inr \<lparr>maxAmount = (if maxAmountWei > 0 then maxAmountWei else 0),
                     maxGasEstimate = estimate,
                     availableBalance = balanceWei,
                     canTransfer = (maxAmountWei > 0)\<rparr>)))))"

text \<open>\<open>calculateMaxTransferAmount\<close>: every error of the block is replaced by one message.\<close>

definition calculateMaxTransferAmount ::
  "rounding \<Rightarrow> (string \<Rightarrow> bool) \<Rightarrow> string option \<Rightarrow> string \<Rightarrow> TransferType \<Rightarrow> string option
     \<Rightarrow> GasStrategy \<Rightarrow> CustomGasConfig option \<Rightarrow> JsError + int \<Rightarrow> ChainAnswers
     \<Rightarrow> JsError + MaxTransfer" where
  "calculateMaxTransferAmount rnd isAddress wallet to transferType tokenAddress gasStrategy
     customGasConfig minTokenValue w =
     (case calculateMaxBody rnd isAddress wallet to transferType tokenAddress gasStrategy
             customGasConfig minTokenValue w of
        Inl e \<Rightarrow> Inl (Error ''failed to compute the maximum transfer amount'')
      | Inr r \<Rightarrow> Inr r)"

subsection \<open>Scenarios used in the statements about transfers\<close>

text \<open>
  A stand-in for \<open>ethers.isAddress\<close> on short example addresses, a receipt of a confirmed
  transaction, and three chains: one on which a transfer of 0.1 from a balance of 1
  succeeds, one whose first broadcast throws an expired-nonce error and whose later
  attempts succeed, and one with a balance of 0.01 and a gas cost of 0.02.
\<close>

definition simpleIsAddress :: "string \<Rightarrow> bool" where
  "simpleIsAddress a = (startsWith a ''0x'' \<and> length a = 6)"

definition goodReceipt :: Receipt where
  "goodReceipt = \<lparr>status = Some 1, receiptGasUsed = 21000, receiptGasPrice = Some 40000000000,
                  blockNumber = 100\<rparr>"

definition healthyChain :: ChainAnswers where
  "healthyChain =
     \<lparr>codeAnswer = Inr ''0x'', receiveProbeAnswer = Inr (), gasRuns = (\<lambda>n. calmChain),
      balanceAnswer = Inr 1000000000000000000, blockNumberAnswer = Inr 100,
      networkFeeAnswer = Inr marketFees, nonceAnswer = Inr 5, sendAnswer = Inr ''0xfeed'',
      waitAnswer = Inr (Some goodReceipt), tokenCodeAnswer = Inr ''0x6080'',
      erc20ProbeAnswer = Inr (), tokenBalanceAnswer = Inr 5000000\<rparr>"

definition nonceExpired :: JsError where
  "nonceExpired = \<lparr>message = ''nonce has already been used (code=NONCE_EXPIRED)'',
                   code = ''NONCE_EXPIRED''\<rparr>"

definition nonceExpiredOnce :: "nat \<Rightarrow> ChainAnswers" where
  "nonceExpiredOnce attempt =
     (if attempt = 1 then healthyChain\<lparr>sendAnswer := Inl nonceExpired\<rparr> else healthyChain)"

definition costlyGas :: GasAnswers where
  "costlyGas = \<lparr>estimateGasAnswer = Inr 20000,
                feeDataAnswer = Inr (legacyFees\<lparr>feeGasPrice := Some 1000000000000\<rparr>)\<rparr>"

definition poorChain :: ChainAnswers where
  "poorChain =
     healthyChain\<lparr>gasRuns := (\<lambda>n. costlyGas), balanceAnswer := Inr 10000000000000000\<rparr>"

section \<open>transactionVerifier.ts\<close>





section \<open>contractValidation.ts\<close>

text \<open>\<open>interface ContractValidationResult\<close>; only \<open>isValid\<close> is mandatory.\<close>

record ContractValidationResult =
  resultIsValid :: bool
  resultContractType :: "string option"
  resultName :: "string option"
  resultSymbol :: "string option"
  resultDecimals :: "int option"
  resultError :: "string option"

text \<open>\<open>interface ValidatedContract\<close>; \<open>validatedAt\<close> is the time of validation.\<close>

record ValidatedContract =
  contractAddress :: string
  contractIsValid :: bool
  contractType :: string
  contractName :: "string option"
  contractSymbol :: "string option"
  contractDecimals :: "int option"
  validatedAt :: int
  contractNetworkId :: int

text \<open>
  The item \<open>validated_contracts\<close> of \<open>localStorage\<close>: absent, a string that \<open>JSON.parse\<close>
  rejects, or the JSON text of an object from keys to entries.
\<close>

datatype StoredContracts =
  Absent
  | Unparsable
  | Stored "string \<rightharpoonup> ValidatedContract"

definition getValidatedContracts :: "StoredContracts \<Rightarrow> (string \<rightharpoonup> ValidatedContract)" where
  "getValidatedContracts item =
     (case item of
        Absent \<Rightarrow> Map.empty
      | Unparsable \<Rightarrow> Map.empty
      | Stored contracts \<Rightarrow> contracts)"

text \<open>
  \<open>storeValidatedContract(address, result, networkId)\<close> at time \<open>now\<close>. The entry is
  written under the lower-cased address. \<open>setItemWorks\<close> tells whether
  \<open>localStorage.setItem\<close> succeeds; when it throws, the error is logged and nothing changes.
\<close>

definition storeValidatedContract ::
  "string \<Rightarrow> ContractValidationResult \<Rightarrow> int \<Rightarrow> int \<Rightarrow> bool \<Rightarrow> StoredContracts
     \<Rightarrow> StoredContracts" where
  "storeValidatedContract address result networkId now setItemWorks item =
     (let validatedContracts = getValidatedContracts item;
          validatedContract =
            \<lparr>contractAddress = toLowerCase address,
             contractIsValid = resultIsValid result,
             contractType = (case resultContractType result of
                               Some t \<Rightarrow> if t = '''' then ''unknown'' else t
                             | None \<Rightarrow> ''unknown''),
             contractName = resultName result,
             contractSymbol = resultSymbol result,
             contractDecimals = resultDecimals result,
             validatedAt = now,
             contractNetworkId = networkId\<rparr>
      in if setItemWorks then Stored (validatedContracts(toLowerCase address \<mapsto> validatedContract))
         else item)"

definition isContractValidated :: "string \<Rightarrow> int \<Rightarrow> int \<Rightarrow> StoredContracts \<Rightarrow> bool" where
  "isContractValidated address networkId now item =
     (case getValidatedContracts item (toLowerCase address) of
        None \<Rightarrow> False
      | Some contract \<Rightarrow>
          if contractNetworkId contract \<noteq> networkId then False
          else now - validatedAt contract < 24 * 60 * 60 * 1000 \<and> contractIsValid contract)"

definition getValidatedContractInfo ::
  "string \<Rightarrow> int \<Rightarrow> StoredContracts \<Rightarrow> ValidatedContract option" where
  "getValidatedContractInfo address networkId item =
     (case getValidatedContracts item (toLowerCase address) of
        None \<Rightarrow> None
      | Some contract \<Rightarrow>
          if contractNetworkId contract \<noteq> networkId then None else Some contract)"

subsection \<open>Scenarios used in the statements about verification and validation\<close>


text \<open>A validation result of an ERC-20 token.\<close>

definition erc20Result :: ContractValidationResult where
  "erc20Result =
     \<lparr>resultIsValid = True, resultContractType = Some ''ERC20'', resultName = Some ''Dai'',
      resultSymbol = Some ''DAI'', resultDecimals = Some 18, resultError = None\<rparr>"

section \<open>Properties of the endpoint pool and its cache\<close>

subsection \<open>The loop over the endpoints\<close>

lemma nodeStep_refl: "nodeStep n n"
  by (simp add: nodeStep_def)

lemma nodeStep_success: "isHealthy n \<Longrightarrow> nodeStep n (recordSuccess e (markUsed t n))"
  by (simp add: nodeStep_def recordSuccess_def markUsed_def)

lemma nodeStep_failure: "isHealthy n \<Longrightarrow> nodeStep n (recordFailure (markUsed t n))"
  by (simp add: nodeStep_def recordFailure_def markUsed_def Let_def)

lemma tryNodes_steps:
  "tryNodes operation net i lastError ns = (ns', k, r) \<Longrightarrow> list_all2 nodeStep ns ns'"
proof (induction ns arbitrary: i lastError ns' k r)
  case Nil
  then show ?case by simp
next
  case (Cons node rest)
  show ?case
  proof (cases "isHealthy node")
    case False
    with Cons.prems obtain rest' where
      "tryNodes operation net i lastError rest = (rest', k, r)" "ns' = node # rest'"
      by (auto split: prod.splits)
    with Cons.IH show ?thesis by (simp add: nodeStep_refl)
  next
    case True
    show ?thesis
    proof (cases "dispatch operation (net i)")
      case (Inr result)
      with True Cons.prems show ?thesis
        by (auto simp: Let_def nodeStep_success nodeStep_refl intro!: list.rel_refl)
    next
      case (Inl err)
      with True Cons.prems obtain rest' where
        "tryNodes operation net (Suc i) (Some err) rest = (rest', k, r)"
        "ns' = recordFailure (markUsed (startTime (net i)) node) # rest'"
        by (auto simp: Let_def split: prod.splits)
      with Cons.IH True show ?thesis by (simp add: nodeStep_failure)
    qed
  qed
qed

lemma tryNodes_calls:
  "tryNodes operation net i lastError ns = (ns', k, r) \<Longrightarrow>
     i \<le> k \<and> (filter isHealthy ns \<noteq> [] \<longrightarrow> i < k) \<and>
     (\<forall>v t. r = Inr (v, t) \<longrightarrow>
        i < k \<and> dispatch operation (net (k - 1)) = Inr v \<and> t = endTime (net (k - 1)))"
proof (induction ns arbitrary: i lastError ns' k r)
  case Nil
  then show ?case by auto
next
  case (Cons node rest)
  show ?case
  proof (cases "isHealthy node")
    case False
    with Cons.prems obtain rest' where
      "tryNodes operation net i lastError rest = (rest', k, r)"
      by (auto split: prod.splits)
    from Cons.IH[OF this] False show ?thesis by simp
  next
    case True
    show ?thesis
    proof (cases "dispatch operation (net i)")
      case (Inr result)
      with True Cons.prems show ?thesis
        by (auto simp: Let_def)
    next
      case (Inl err)
      with True Cons.prems obtain rest' where
        "tryNodes operation net (Suc i) (Some err) rest = (rest', k, r)"
        by (auto simp: Let_def split: prod.splits)
      from Cons.IH[OF this] True show ?thesis by auto
    qed
  qed
qed

lemma probeNode_step: "probeStep probe n (probeNode probe n)"
  by (auto simp: probeStep_def probeNode_def split: sum.splits)

lemma executeRequest_steps:
  assumes "executeRequest operation params cacheTime now net s = (r, s', k)"
  shows "list_all2 nodeStep (nodes s) (nodes s')"
proof -
  have refl: "list_all2 nodeStep (nodes s) (nodes s)"
    by (simp add: list.rel_refl nodeStep_refl)
  obtain ns' k' r' where t: "tryNodes operation net 0 None (nodes s) = (ns', k', r')"
    by (cases "tryNodes operation net 0 None (nodes s)") auto
  from tryNodes_steps[OF t] have "list_all2 nodeStep (nodes s) ns'" .
  with assms t refl show ?thesis
    by (auto simp: executeRequest_def Let_def split: prod.splits option.splits if_splits sum.splits)
qed

lemma performHealthCheck_nth:
  "j < length (nodes s) \<Longrightarrow>
     nodes (performHealthCheck probes s) ! j = probeNode (probes j) (nodes s ! j)"
  by (simp add: performHealthCheck_def nth_enumerate_eq)

lemma attemptIndex_Cons:
  "attemptIndex (node # rest) (Suc j) = (if isHealthy node then 1 else 0) + attemptIndex rest j"
  by (simp add: attemptIndex_def)

lemma tryNodes_nth:
  "tryNodes operation net i0 lastError ns = (ns', k, r) \<Longrightarrow> j < length ns \<Longrightarrow>
   ns' ! j =
     (if isHealthy (ns ! j) \<and> i0 + attemptIndex ns j < k
      then attemptNode operation (net (i0 + attemptIndex ns j)) (ns ! j)
      else ns ! j)"
proof (induction ns arbitrary: i0 lastError ns' k r j)
  case Nil
  then show ?case by simp
next
  case (Cons node rest)
  show ?case
  proof (cases "isHealthy node")
    case False
    with Cons.prems obtain rest' where
      t: "tryNodes operation net i0 lastError rest = (rest', k, r)" and n: "ns' = node # rest'"
      by (auto split: prod.splits)
    show ?thesis
    proof (cases j)
      case 0
      with False n show ?thesis by simp
    next
      case (Suc j')
      with Cons.prems have "j' < length rest" by simp
      from Cons.IH[OF t this] Suc False n show ?thesis
        by (simp add: attemptIndex_Cons)
    qed
  next
    case True
    show ?thesis
    proof (cases "dispatch operation (net i0)")
      case (Inr result)
      with True Cons.prems have n: "ns' = attemptNode operation (net i0) node # rest"
        and k: "k = Suc i0"
        by (auto simp: Let_def attemptNode_def)
      show ?thesis
      proof (cases j)
        case 0
        with True n k show ?thesis by (simp add: attemptIndex_def)
      next
        case (Suc j')
        with True n k show ?thesis by (simp add: attemptIndex_Cons)
      qed
    next
      case (Inl err)
      with True Cons.prems obtain rest' where
        t: "tryNodes operation net (Suc i0) (Some err) rest = (rest', k, r)"
        and n: "ns' = attemptNode operation (net i0) node # rest'"
        by (auto simp: Let_def attemptNode_def split: prod.splits)
      from tryNodes_calls[OF t] have k: "Suc i0 \<le> k" by simp
      show ?thesis
      proof (cases j)
        case 0
        with True n k show ?thesis by (simp add: attemptIndex_def)
      next
        case (Suc j')
        with Cons.prems have "j' < length rest" by simp
        from Cons.IH[OF t this] Suc True n show ?thesis
          by (simp add: attemptIndex_Cons)
      qed
    qed
  qed
qed

lemma executeRequest_nodes:
  assumes "executeRequest operation params cacheTime now net s = (r, s1, k)"
  shows "(nodes s1 = nodes s \<and> k = 0) \<or>
         (\<exists>r'. tryNodes operation net 0 None (nodes s) = (nodes s1, k, r'))"
proof -
  obtain ns' k' r' where t: "tryNodes operation net 0 None (nodes s) = (ns', k', r')"
    by (cases "tryNodes operation net 0 None (nodes s)") auto
  with assms show ?thesis
    by (cases r') (auto simp: executeRequest_def Let_def split: prod.splits option.splits if_splits)
qed

lemma executeRequest_nth:
  assumes e: "executeRequest operation params cacheTime now net s = (r, s1, k)"
    and j: "j < length (nodes s)"
  shows "nodes s1 ! j =
     (if isHealthy (nodes s ! j) \<and> attemptIndex (nodes s) j < k
      then attemptNode operation (net (attemptIndex (nodes s) j)) (nodes s ! j)
      else nodes s ! j)"
  using executeRequest_nodes[OF e]
proof
  assume "nodes s1 = nodes s \<and> k = 0"
  then show ?thesis by simp
next
  assume "\<exists>r'. tryNodes operation net 0 None (nodes s) = (nodes s1, k, r')"
  then obtain r' where "tryNodes operation net 0 None (nodes s) = (nodes s1, k, r')" ..
  from tryNodes_nth[OF this j] show ?thesis by simp
qed

lemma attemptNode_success:
  "dispatch operation a = Inr v \<Longrightarrow> isHealthy n \<Longrightarrow>
   attemptNode operation a n = recordSuccess (endTime a - startTime a) (markUsed (startTime a) n) \<and>
   errorCount (attemptNode operation a n) = max 0 (errorCount n - 1) \<and>
   isHealthy (attemptNode operation a n)"
  by (simp add: attemptNode_def recordSuccess_def markUsed_def)

lemma attemptNode_failure:
  "dispatch operation a = Inl e \<Longrightarrow>
   attemptNode operation a n = recordFailure (markUsed (startTime a) n) \<and>
   errorCount (attemptNode operation a n) = errorCount n + 1 \<and>
   isHealthy (attemptNode operation a n) = (isHealthy n \<and> errorCount n + 1 < 3)"
  by (auto simp: attemptNode_def recordFailure_def markUsed_def Let_def)

lemmas pool_eval = afterRequest_def executeRequest_def getCacheKey_def JSON_stringify_def
  dispatch_def knownOperations_def markUsed_def recordSuccess_def recordFailure_def
  newNode_def failedAttempt_def goodAttempt_def oneNodePool_def strainedPool_def
  gasPriceEntry_def cachedPool_def staleBalancePool_def getFromCache_def setCache_def
  performHealthCheck_def probeNode_def Let_def

subsection \<open>Health transitions\<close>

text \<open>
  Claim C4, as the code has it. Take the endpoint at any position \<open>j\<close>; the attempt that
  can reach it is the one numbered by the healthy endpoints before it. An \<open>executeRequest\<close>
  keeps the number of endpoints and leaves the endpoint exactly as it was when it is
  unhealthy or when the loop ends before reaching it. When the loop reaches it, a call that
  succeeds lowers its error counter by one, not below 0 and without resetting it, and
  leaves it healthy; a call that fails raises the counter by one and leaves it healthy
  exactly when the counter is still below 3. So an endpoint that turns from healthy to
  unhealthy was reached by a call that failed and raised its counter to 3 or more; the
  failures that reach 3 need not be consecutive. A health check does to each endpoint
  what \<open>probeNode\<close> says: a healthy endpoint stays as it was, and an unhealthy one becomes
  healthy exactly when its probe answers in less than 5000 ms, with its error counter
  reset to 0, and otherwise stays as it was.
\<close>

theorem health_flag_transitions:
  fixes s :: "'v RpcOptimizer"
  shows
  "j < length (nodes s) \<longrightarrow>
     (executeRequest operation params cacheTime now net s = (r, s1, k) \<longrightarrow>
        length (nodes s1) = length (nodes s) \<and>
        (\<not> isHealthy (nodes s ! j) \<or> k \<le> attemptIndex (nodes s) j \<longrightarrow>
           nodes s1 ! j = nodes s ! j) \<and>
        (isHealthy (nodes s ! j) \<and> attemptIndex (nodes s) j < k \<longrightarrow>
           (\<forall>v. dispatch operation (net (attemptIndex (nodes s) j)) = Inr v \<longrightarrow>
              nodes s1 ! j =
                recordSuccess
                  (endTime (net (attemptIndex (nodes s) j)) -
                   startTime (net (attemptIndex (nodes s) j)))
                  (markUsed (startTime (net (attemptIndex (nodes s) j))) (nodes s ! j)) \<and>
              errorCount (nodes s1 ! j) = max 0 (errorCount (nodes s ! j) - 1) \<and>
              isHealthy (nodes s1 ! j)) \<and>
           (\<forall>e. dispatch operation (net (attemptIndex (nodes s) j)) = Inl e \<longrightarrow>
              nodes s1 ! j =
                recordFailure (markUsed (startTime (net (attemptIndex (nodes s) j))) (nodes s ! j)) \<and>
              errorCount (nodes s1 ! j) = errorCount (nodes s ! j) + 1 \<and>
              isHealthy (nodes s1 ! j) = (errorCount (nodes s ! j) + 1 < 3))) \<and>
        (isHealthy (nodes s ! j) \<and> \<not> isHealthy (nodes s1 ! j) \<longrightarrow>
           attemptIndex (nodes s) j < k \<and>
           (\<exists>e. dispatch operation (net (attemptIndex (nodes s) j)) = Inl e) \<and>
           errorCount (nodes s1 ! j) = errorCount (nodes s ! j) + 1 \<and>
           3 \<le> errorCount (nodes s1 ! j))) \<and>
     length (nodes (performHealthCheck probes s)) = length (nodes s) \<and>
     nodes (performHealthCheck probes s) ! j = probeNode (probes j) (nodes s ! j) \<and>
     (isHealthy (nodes s ! j) \<longrightarrow> nodes (performHealthCheck probes s) ! j = nodes s ! j) \<and>
     (\<not> isHealthy (nodes s ! j) \<longrightarrow>
        isHealthy (nodes (performHealthCheck probes s) ! j) =
          (\<exists>elapsed. probes j = Inr elapsed \<and> elapsed < 5000) \<and>
        (isHealthy (nodes (performHealthCheck probes s) ! j) \<longrightarrow>
           errorCount (nodes (performHealthCheck probes s) ! j) = 0) \<and>
        (\<not> isHealthy (nodes (performHealthCheck probes s) ! j) \<longrightarrow>
           nodes (performHealthCheck probes s) ! j = nodes s ! j))"
proof (intro impI conjI)
  assume j: "j < length (nodes s)"
  let ?B = "nodes s ! j" and ?i = "attemptIndex (nodes s) j"
  show "length (nodes (performHealthCheck probes s)) = length (nodes s)"
    by (simp add: performHealthCheck_def)
  show p: "nodes (performHealthCheck probes s) ! j = probeNode (probes j) ?B"
    using j by (rule performHealthCheck_nth)
  { assume "isHealthy ?B"
    then show "nodes (performHealthCheck probes s) ! j = ?B"
      by (simp add: p probeNode_def) }
  { assume u: "\<not> isHealthy ?B"
    then show "isHealthy (nodes (performHealthCheck probes s) ! j) =
          (\<exists>elapsed. probes j = Inr elapsed \<and> elapsed < 5000)"
      by (cases "probes j") (auto simp: p probeNode_def)
    { assume "isHealthy (nodes (performHealthCheck probes s) ! j)"
      with u show "errorCount (nodes (performHealthCheck probes s) ! j) = 0"
        by (cases "probes j") (auto simp: p probeNode_def split: if_splits) }
    { assume "\<not> isHealthy (nodes (performHealthCheck probes s) ! j)"
      with u show "nodes (performHealthCheck probes s) ! j = ?B"
        by (cases "probes j") (auto simp: p probeNode_def split: if_splits) } }
  assume e: "executeRequest operation params cacheTime now net s = (r, s1, k)"
  from executeRequest_steps[OF e] show "length (nodes s1) = length (nodes s)"
    by (simp add: list_all2_lengthD)
  note n = executeRequest_nth[OF e j]
  { assume "\<not> isHealthy ?B \<or> k \<le> ?i"
    with n show "nodes s1 ! j = ?B" by auto }
  { assume h: "isHealthy ?B \<and> ?i < k"
    with n have a: "nodes s1 ! j = attemptNode operation (net ?i) ?B" by simp
    show "\<forall>v. dispatch operation (net ?i) = Inr v \<longrightarrow>
              nodes s1 ! j =
                recordSuccess (endTime (net ?i) - startTime (net ?i))
                  (markUsed (startTime (net ?i)) ?B) \<and>
              errorCount (nodes s1 ! j) = max 0 (errorCount ?B - 1) \<and>
              isHealthy (nodes s1 ! j)"
      using h attemptNode_success[of operation "net ?i" _ ?B] unfolding a by blast
    show "\<forall>e. dispatch operation (net ?i) = Inl e \<longrightarrow>
              nodes s1 ! j = recordFailure (markUsed (startTime (net ?i)) ?B) \<and>
              errorCount (nodes s1 ! j) = errorCount ?B + 1 \<and>
              isHealthy (nodes s1 ! j) = (errorCount ?B + 1 < 3)"
      using h attemptNode_failure[of operation "net ?i" _ ?B] unfolding a by blast }
  { assume f: "isHealthy ?B \<and> \<not> isHealthy (nodes s1 ! j)"
    with n have lt: "?i < k" by (auto split: if_splits)
    with f n have a: "nodes s1 ! j = attemptNode operation (net ?i) ?B" by simp
    have ex: "\<exists>e. dispatch operation (net ?i) = Inl e"
    proof (cases "dispatch operation (net ?i)")
      case (Inl e) then show ?thesis by blast
    next
      case (Inr v)
      from attemptNode_success[OF Inr, of ?B] f
      have "isHealthy (attemptNode operation (net ?i) ?B)" by blast
      with f show ?thesis unfolding a by blast
    qed
    then obtain e' where d: "dispatch operation (net ?i) = Inl e'" ..
    note fl = attemptNode_failure[OF d, of ?B]
    have c1: "errorCount (nodes s1 ! j) = errorCount ?B + 1"
      unfolding a using fl by blast
    have c2: "isHealthy (nodes s1 ! j) = (isHealthy ?B \<and> errorCount ?B + 1 < 3)"
      unfolding a using fl by blast
    from c2 f have c3: "\<not> errorCount ?B + 1 < 3" by blast
    show "?i < k" by (rule lt)
    show "\<exists>e. dispatch operation (net ?i) = Inl e" by (rule ex)
    show "errorCount (nodes s1 ! j) = errorCount ?B + 1" by (rule c1)
    show "3 \<le> errorCount (nodes s1 ! j)" using c1 c3 by linarith }
qed

theorem health_flag_transitions_witness:
  "0 < length (nodes strainedPool) \<and> isHealthy (nodes strainedPool ! 0) \<and>
   attemptIndex (nodes strainedPool) 0 = 0 \<and>
   dispatch ''getBalance'' failedAttempt = Inl ''timeout'' \<and>
   snd (snd (executeRequest ''getBalance'' [''0xabc''] 0 0 (\<lambda>i. failedAttempt) strainedPool)) = 1 \<and>
   \<not> isHealthy (nodes (afterRequest failedAttempt strainedPool) ! 0) \<and>
   errorCount (nodes (afterRequest failedAttempt strainedPool) ! 0) = 3 \<and>
   1 < length (nodes strainedPool) \<and> \<not> isHealthy (nodes strainedPool ! 1) \<and>
   nodes (afterRequest failedAttempt strainedPool) ! 1 = nodes strainedPool ! 1 \<and>
   isHealthy (nodes (performHealthCheck (\<lambda>i. Inr 120) strainedPool) ! 1) \<and>
   errorCount (nodes (performHealthCheck (\<lambda>i. Inr 120) strainedPool) ! 1) = 0"
  using health_flag_transitions[where j=0 and s=strainedPool and operation="''getBalance''"
      and params="[''0xabc'']" and cacheTime=0 and now=0 and net="\<lambda>i. failedAttempt"
      and r="fst (executeRequest ''getBalance'' [''0xabc''] 0 0 (\<lambda>i. failedAttempt) strainedPool)"
      and ?s1.0="afterRequest failedAttempt strainedPool"
      and k="snd (snd (executeRequest ''getBalance'' [''0xabc''] 0 0 (\<lambda>i. failedAttempt) strainedPool))"
      and probes="\<lambda>i. Inr 120"]
    health_flag_transitions[where j=1 and s=strainedPool and operation="''getBalance''"
      and params="[''0xabc'']" and cacheTime=0 and now=0 and net="\<lambda>i. failedAttempt"
      and r="fst (executeRequest ''getBalance'' [''0xabc''] 0 0 (\<lambda>i. failedAttempt) strainedPool)"
      and ?s1.0="afterRequest failedAttempt strainedPool"
      and k="snd (snd (executeRequest ''getBalance'' [''0xabc''] 0 0 (\<lambda>i. failedAttempt) strainedPool))"
      and probes="\<lambda>i. Inr 120"]
  by (simp add: pool_eval attemptIndex_def)

text \<open>
  The claim as written fails: two failures, one success and two more failures turn a fresh
  endpoint unhealthy, although no three failures were consecutive. The endpoint is healthy
  after the success and after the next failure, and unhealthy after the one that follows.
\<close>

theorem unhealthy_without_three_in_a_row:
  "map isHealthy (nodes (afterRequest goodAttempt
       (afterRequest failedAttempt (afterRequest failedAttempt oneNodePool)))) = [True] \<and>
   map isHealthy (nodes (afterRequest failedAttempt
       (afterRequest goodAttempt
       (afterRequest failedAttempt (afterRequest failedAttempt oneNodePool))))) = [True] \<and>
   map isHealthy (nodes (afterRequest failedAttempt (afterRequest failedAttempt
       (afterRequest goodAttempt
       (afterRequest failedAttempt (afterRequest failedAttempt oneNodePool)))))) = [False]"
  by (simp add: pool_eval)

subsection \<open>Cache reads\<close>

lemma getFromCache_hit:
  "getFromCache now key c = (Some v, c') \<Longrightarrow>
     \<exists>e. c key = Some e \<and> v = data e \<and> now - timestamp e \<le> ttl e \<and> c' = c"
  by (auto simp: getFromCache_def split: option.splits if_splits)

lemma getFromCache_fresh:
  "c key = Some e \<Longrightarrow> now - timestamp e \<le> ttl e \<Longrightarrow> getFromCache now key c = (Some (data e), c)"
  by (simp add: getFromCache_def)

lemma getFromCache_expired:
  "c key = Some e \<Longrightarrow> now - timestamp e > ttl e \<Longrightarrow> getFromCache now key c = (None, c(key := None))"
  by (simp add: getFromCache_def)

lemma setCache_key: "setCache t key d tt c key = Some \<lparr>data = d, timestamp = t, ttl = tt\<rparr>"
  by (simp add: setCache_def Let_def)

lemma executeRequest_fresh:
  assumes "cache s (getCacheKey operation params) = Some e" "now - timestamp e \<le> ttl e" "0 < cacheTime"
  shows "executeRequest operation params cacheTime now net s = (Inr (data e), s, 0)"
  using assms by (simp add: executeRequest_def Let_def getFromCache_fresh)

lemma executeRequest_miss:
  assumes miss: "cacheTime > 0 \<longrightarrow> fst (getFromCache now (getCacheKey operation params) (cache s)) = None"
    and ex: "executeRequest operation params cacheTime now net s = (r, s', k)"
  shows "(filter isHealthy (nodes s) \<noteq> [] \<longrightarrow> 1 \<le> k) \<and>
         (filter isHealthy (nodes s) = [] \<longrightarrow> k = 0 \<and> r = Inl ''no RPC node available'') \<and>
         (\<forall>v. r = Inr v \<longrightarrow>
            1 \<le> k \<and> dispatch operation (net (k - 1)) = Inr v \<and>
            cache s' =
              (if cacheTime > 0
               then setCache (endTime (net (k - 1))) (getCacheKey operation params) v cacheTime
                      (snd (getFromCache now (getCacheKey operation params) (cache s)))
               else cache s)) \<and>
         ((\<exists>m. r = Inl m) \<longrightarrow>
            cache s' = (if cacheTime > 0
                        then snd (getFromCache now (getCacheKey operation params) (cache s))
                        else cache s))"
proof -
  obtain ns' k' r' where t: "tryNodes operation net 0 None (nodes s) = (ns', k', r')"
    by (cases "tryNodes operation net 0 None (nodes s)") auto
  note c = tryNodes_calls[OF t]
  show ?thesis
  proof (cases "cacheTime > 0")
    case True
    with miss obtain c1 where g: "getFromCache now (getCacheKey operation params) (cache s) = (None, c1)"
      by (cases "getFromCache now (getCacheKey operation params) (cache s)") auto
    from ex t c True g show ?thesis
      by (cases r') (auto simp: executeRequest_def Let_def split: if_splits)
  next
    case False
    from ex t c False show ?thesis
      by (cases r') (auto simp: executeRequest_def Let_def split: if_splits)
  qed
qed

text \<open>
  Claim C6, as the code has it. A read never returns a value whose age exceeds its ttl.
  When \<open>executeRequest\<close> consults the cache (cache time above 0) and the entry's age is at
  most its ttl, it returns the cached value, makes no network call and leaves the state as
  it was. When the age is above the ttl, the read removes the entry; \<open>executeRequest\<close>
  then calls the network if an endpoint is healthy, a value it returns is the answer of
  its last call and is stored under the key with the time of that answer and the cache
  time as ttl, and after a failure the key holds nothing. An entry whose age equals its
  ttl is still served.
\<close>

theorem cache_read_within_ttl:
  fixes s :: "'v RpcOptimizer"
  shows
  "(getFromCache now key c = (Some v, c') \<longrightarrow>
      (\<exists>e. c key = Some e \<and> v = data e \<and> now - timestamp e \<le> ttl e)) \<and>
   (cache s (getCacheKey operation params) = Some e \<and> 0 < cacheTime \<longrightarrow>
      (now - timestamp e \<le> ttl e \<longrightarrow>
         executeRequest operation params cacheTime now net s = (Inr (data e), s, 0)) \<and>
      (now - timestamp e > ttl e \<longrightarrow>
         getFromCache now (getCacheKey operation params) (cache s) =
           (None, (cache s)((getCacheKey operation params) := None)) \<and>
         (executeRequest operation params cacheTime now net s = (r, s', k) \<longrightarrow>
            (filter isHealthy (nodes s) \<noteq> [] \<longrightarrow> 1 \<le> k) \<and>
            (\<forall>v. r = Inr v \<longrightarrow>
               dispatch operation (net (k - 1)) = Inr v \<and>
               cache s' (getCacheKey operation params) =
                 Some \<lparr>data = v, timestamp = endTime (net (k - 1)), ttl = cacheTime\<rparr>) \<and>
            ((\<exists>m. r = Inl m) \<longrightarrow> cache s' (getCacheKey operation params) = None))))"
proof (intro conjI impI)
  assume "getFromCache now key c = (Some v, c')"
  from getFromCache_hit[OF this]
  show "\<exists>e. c key = Some e \<and> v = data e \<and> now - timestamp e \<le> ttl e" by blast
next
  assume a: "cache s (getCacheKey operation params) = Some e \<and> 0 < cacheTime"
    and "now - timestamp e \<le> ttl e"
  then show "executeRequest operation params cacheTime now net s = (Inr (data e), s, 0)"
    by (simp add: executeRequest_fresh)
next
  assume a: "cache s (getCacheKey operation params) = Some e \<and> 0 < cacheTime"
    and b: "ttl e < now - timestamp e"
  then show g: "getFromCache now (getCacheKey operation params) (cache s) =
           (None, (cache s)((getCacheKey operation params) := None))"
    by (simp add: getFromCache_expired)
  assume ex: "executeRequest operation params cacheTime now net s = (r, s', k)"
  have miss: "cacheTime > 0 \<longrightarrow> fst (getFromCache now (getCacheKey operation params) (cache s)) = None"
    using g by simp
  note m = executeRequest_miss[OF miss ex]
  { assume "filter isHealthy (nodes s) \<noteq> []"
    with m show "1 \<le> k" by blast }
  show "\<forall>v. r = Inr v \<longrightarrow>
               dispatch operation (net (k - 1)) = Inr v \<and>
               cache s' (getCacheKey operation params) =
                 Some \<lparr>data = v, timestamp = endTime (net (k - 1)), ttl = cacheTime\<rparr>"
    using m a by (auto simp: setCache_key)
  { assume "\<exists>m. r = Inl m"
    with m a g show "cache s' (getCacheKey operation params) = None" by auto }
qed

theorem cache_read_within_ttl_witness:
  "getFromCache 16000 (getCacheKey ''getGasPrice'' []) (cache cachedPool) =
     (Some 42, cache cachedPool) \<and>
   cache cachedPool (getCacheKey ''getGasPrice'' []) = Some gasPriceEntry \<and>
   16000 - timestamp gasPriceEntry \<le> ttl gasPriceEntry \<and>
   executeRequest ''getGasPrice'' [] 15000 16000 (\<lambda>i. goodAttempt) cachedPool =
     (Inr 42, cachedPool, 0) \<and>
   16001 - timestamp gasPriceEntry > ttl gasPriceEntry \<and>
   filter isHealthy (nodes cachedPool) \<noteq> [] \<and>
   fst (executeRequest ''getGasPrice'' [] 15000 16001 (\<lambda>i. goodAttempt) cachedPool) = Inr 7 \<and>
   snd (snd (executeRequest ''getGasPrice'' [] 15000 16001 (\<lambda>i. goodAttempt) cachedPool)) = 1 \<and>
   cache (fst (snd (executeRequest ''getGasPrice'' [] 15000 16001 (\<lambda>i. goodAttempt) cachedPool)))
     (getCacheKey ''getGasPrice'' []) = Some \<lparr>data = 7, timestamp = 16050, ttl = 15000\<rparr>"
  using cache_read_within_ttl[where now=16000 and key="getCacheKey ''getGasPrice'' []"
      and c="cache cachedPool" and v=42 and c'="cache cachedPool" and s=cachedPool
      and operation="''getGasPrice''" and params="[]" and e=gasPriceEntry and cacheTime=15000
      and net="\<lambda>i. goodAttempt"]
    cache_read_within_ttl[where now=16001 and key="getCacheKey ''getGasPrice'' []"
      and c="cache cachedPool" and v=42 and c'="cache cachedPool" and s=cachedPool
      and operation="''getGasPrice''" and params="[]" and e=gasPriceEntry and cacheTime=15000
      and net="\<lambda>i. goodAttempt"
      and r="fst (executeRequest ''getGasPrice'' [] 15000 16001 (\<lambda>i. goodAttempt) cachedPool)"
      and s'="fst (snd (executeRequest ''getGasPrice'' [] 15000 16001 (\<lambda>i. goodAttempt) cachedPool))"
      and k="snd (snd (executeRequest ''getGasPrice'' [] 15000 16001 (\<lambda>i. goodAttempt) cachedPool))"]
  by (simp add: pool_eval)

text \<open>
  The claim as written fails at the instant of expiry: an entry stored at 1000 with ttl
  15000 and read at 16000 has age equal to its ttl; the read returns it and keeps it, and
  \<open>executeRequest\<close> answers from it without a network call.
\<close>

theorem read_at_expiry_keeps_entry:
  "16000 - timestamp gasPriceEntry = ttl gasPriceEntry \<and>
   getFromCache 16000 (getCacheKey ''getGasPrice'' []) (cache cachedPool) =
     (Some 42, cache cachedPool) \<and>
   cache cachedPool (getCacheKey ''getGasPrice'' []) = Some gasPriceEntry \<and>
   executeRequest ''getGasPrice'' [] 15000 16000 (\<lambda>i. goodAttempt) cachedPool =
     (Inr 42, cachedPool, 0)"
  by (simp add: pool_eval)

subsection \<open>Balance reads\<close>

lemma executeRequest_uncached:
  "executeRequest operation params 0 now net s =
     (if filter isHealthy (nodes s) = [] then (Inl ''no RPC node available'', s, 0)
      else case tryNodes operation net 0 None (nodes s) of
             (nodes', k, Inr (result, t1)) \<Rightarrow> (Inr result, \<lparr>nodes = nodes', cache = cache s\<rparr>, k)
           | (nodes', k, Inl lastError) \<Rightarrow>
               (Inl (''network request failed: '' @
                     (case lastError of Some m \<Rightarrow> m | None \<Rightarrow> ''unknown error'')),
                \<lparr>nodes = nodes', cache = cache s\<rparr>, k))"
  by (auto simp: executeRequest_def Let_def split: prod.splits sum.splits)

lemma executeRequest_uncached_cache:
  "fst (executeRequest operation params 0 now net (s\<lparr>cache := c\<rparr>)) =
     fst (executeRequest operation params 0 now net s) \<and>
   snd (snd (executeRequest operation params 0 now net (s\<lparr>cache := c\<rparr>))) =
     snd (snd (executeRequest operation params 0 now net s)) \<and>
   cache (fst (snd (executeRequest operation params 0 now net (s\<lparr>cache := c\<rparr>)))) = c"
  unfolding executeRequest_uncached
  by (auto split: prod.splits sum.splits)

lemma getBalance_purge:
  "getBalance address ct now net s =
     executeRequest ''getBalance'' [address] 0 now net (s\<lparr>cache := purgeBalance address (cache s)\<rparr>)"
proof -
  have "deleteKeys (\<lambda>key. includesStr key ''getBalance'' \<or> includesStr key address)
          (clearCacheForOperation ''getBalance'' (cache s)) = purgeBalance address (cache s)"
    by (auto simp: deleteKeys_def clearCacheForOperation_def purgeBalance_def)
  then show ?thesis by (simp add: getBalance_def Let_def)
qed

lemma BlockchainService_getBalance_target:
  "address \<noteq> [] \<Longrightarrow>
   BlockchainService_getBalance (Some address) wallet now net s =
     getBalance address (Some 0) now net (s\<lparr>cache := Map.empty\<rparr>)"
  by (simp add: BlockchainService_getBalance_def)

lemma getBalance_cache_after:
  "cache (fst (snd (getBalance address ct now net s))) = purgeBalance address (cache s)"
  unfolding getBalance_purge
  using executeRequest_uncached_cache[where operation="''getBalance''" and params="[address]"
        and now=now and net=net and s=s and c="purgeBalance address (cache s)"]
  by simp

lemma getBalance_any_cache:
  "fst (getBalance address ct now net (s\<lparr>cache := c\<rparr>)) = fst (getBalance address ct' now net s) \<and>
   snd (snd (getBalance address ct now net (s\<lparr>cache := c\<rparr>))) =
     snd (snd (getBalance address ct' now net s))"
  unfolding getBalance_purge
  using executeRequest_uncached_cache[where operation="''getBalance''" and params="[address]"
        and now=now and net=net and s=s and c="purgeBalance address c"]
    executeRequest_uncached_cache[where operation="''getBalance''" and params="[address]"
        and now=now and net=net and s=s and c="purgeBalance address (cache s)"]
  by simp

lemma purgeBalance_empty: "purgeBalance address Map.empty = Map.empty"
  by (simp add: purgeBalance_def fun_eq_iff)

lemma BlockchainService_getBalance_resolved:
  "(case addressArg of Some a \<Rightarrow> if a = [] then wallet else Some a | None \<Rightarrow> wallet) =
     Some address \<Longrightarrow> address \<noteq> [] \<Longrightarrow>
   BlockchainService_getBalance addressArg wallet now net s =
     getBalance address (Some 0) now net (s\<lparr>cache := Map.empty\<rparr>)"
  by (simp add: BlockchainService_getBalance_def Let_def)

lemma BlockchainService_getBalance_unresolved:
  "(case addressArg of Some a \<Rightarrow> if a = [] then wallet else Some a | None \<Rightarrow> wallet) = None \<or>
   (case addressArg of Some a \<Rightarrow> if a = [] then wallet else Some a | None \<Rightarrow> wallet) = Some [] \<Longrightarrow>
   BlockchainService_getBalance addressArg wallet now net s =
     (Inl ''no address given and the wallet is not initialised'', s, 0)"
  by (auto simp: BlockchainService_getBalance_def Let_def)

lemma BlockchainService_getBalance_same:
  assumes "(case addressArg of Some a \<Rightarrow> if a = [] then wallet else Some a | None \<Rightarrow> wallet) =
     Some address" "address \<noteq> []" "getBalance address ct now net s = (r, s', k)"
  shows "fst (BlockchainService_getBalance addressArg wallet now net s) = r \<and>
         snd (snd (BlockchainService_getBalance addressArg wallet now net s)) = k \<and>
         cache (fst (snd (BlockchainService_getBalance addressArg wallet now net s))) = Map.empty"
  using assms(3) getBalance_any_cache[of address "Some 0" now net Map.empty s ct]
    getBalance_cache_after[of address "Some 0" now net "s\<lparr>cache := Map.empty\<rparr>"]
  by (simp add: BlockchainService_getBalance_resolved[OF assms(1,2)] purgeBalance_empty)

lemma downPool_nodes:
  "map isHealthy (nodes downPool) = [False] \<and> map errorCount (nodes downPool) = [3]"
  by (simp add: downPool_def pool_eval)

lemma BlockchainService_getBalance_fresh:
  assumes "address \<noteq> []" "getBalance address ct now net s = (r, s', k)"
  shows "fst (BlockchainService_getBalance (Some address) wallet now net s) = r \<and>
         snd (snd (BlockchainService_getBalance (Some address) wallet now net s)) = k \<and>
         cache (fst (snd (BlockchainService_getBalance (Some address) wallet now net s))) = Map.empty"
  using assms getBalance_any_cache[of address "Some 0" now net Map.empty s ct]
    getBalance_cache_after[of address "Some 0" now net "s\<lparr>cache := Map.empty\<rparr>"]
  by (simp add: BlockchainService_getBalance_target purgeBalance_empty)

text \<open>
  Claim C10, as the code has it. The result of \<open>getBalance\<close> and the number of network
  calls it makes are the same for every cache content and every cache time argument. With
  a healthy endpoint it makes at least one network call; with none it makes no call and
  throws. A balance it returns is the answer of the last network call of this very call.
  The cache it leaves is the old cache without the keys that start with \<open>getBalance:\<close>,
  contain \<open>getBalance\<close> or contain the address: nothing is stored. The \<open>getBalance\<close> of
  the blockchain service, called for this address either by its argument or, with the
  argument absent or empty, by the wallet's address, clears the whole cache first, returns
  the same result with the same number of calls and leaves the cache empty; with no
  address and no wallet it throws without a call and changes nothing.
\<close>

theorem getBalance_never_cached:
  fixes s :: "'v RpcOptimizer"
  shows
  "getBalance address cacheTimeArg now net s = (r, s', k) \<longrightarrow>
     (\<forall>otherArg otherCache.
        fst (getBalance address otherArg now net (s\<lparr>cache := otherCache\<rparr>)) = r \<and>
        snd (snd (getBalance address otherArg now net (s\<lparr>cache := otherCache\<rparr>))) = k) \<and>
     (filter isHealthy (nodes s) \<noteq> [] \<longrightarrow> 1 \<le> k) \<and>
     (filter isHealthy (nodes s) = [] \<longrightarrow> k = 0 \<and> r = Inl ''no RPC node available'') \<and>
     (\<forall>v. r = Inr v \<longrightarrow> 1 \<le> k \<and> outcome (net (k - 1)) = Inr v) \<and>
     (\<forall>key. cache s' key =
        (if startsWith key ''getBalance:'' \<or> includesStr key ''getBalance'' \<or>
            includesStr key address
         then None else cache s key)) \<and>
     (\<forall>addressArg wallet.
        (case addressArg of Some a \<Rightarrow> if a = [] then wallet else Some a | None \<Rightarrow> wallet) =
          Some address \<and> address \<noteq> [] \<longrightarrow>
        fst (BlockchainService_getBalance addressArg wallet now net s) = r \<and>
        snd (snd (BlockchainService_getBalance addressArg wallet now net s)) = k \<and>
        cache (fst (snd (BlockchainService_getBalance addressArg wallet now net s))) =
          Map.empty) \<and>
     (\<forall>addressArg wallet.
        (case addressArg of Some a \<Rightarrow> if a = [] then wallet else Some a | None \<Rightarrow> wallet) =
          None \<or>
        (case addressArg of Some a \<Rightarrow> if a = [] then wallet else Some a | None \<Rightarrow> wallet) =
          Some [] \<longrightarrow>
        BlockchainService_getBalance addressArg wallet now net s =
          (Inl ''no address given and the wallet is not initialised'', s, 0))"
proof (intro impI conjI allI)
  assume g: "getBalance address cacheTimeArg now net s = (r, s', k)"
  let ?p = "s\<lparr>cache := purgeBalance address (cache s)\<rparr>"
  from g have e: "executeRequest ''getBalance'' [address] 0 now net ?p = (r, s', k)"
    by (simp add: getBalance_purge)
  have e0: "fst (executeRequest ''getBalance'' [address] 0 now net s) = r \<and>
            snd (snd (executeRequest ''getBalance'' [address] 0 now net s)) = k"
    using executeRequest_uncached_cache[where operation="''getBalance''" and params="[address]"
        and now=now and net=net and s=s and c="purgeBalance address (cache s)"] e
    by simp
  { fix otherArg otherCache
    have "getBalance address otherArg now net (s\<lparr>cache := otherCache\<rparr>) =
        executeRequest ''getBalance'' [address] 0 now net (s\<lparr>cache := purgeBalance address otherCache\<rparr>)"
      by (simp add: getBalance_purge)
    with executeRequest_uncached_cache[where operation="''getBalance''" and params="[address]"
        and now=now and net=net and s=s and c="purgeBalance address otherCache"] e0
    show "fst (getBalance address otherArg now net (s\<lparr>cache := otherCache\<rparr>)) = r"
      and "snd (snd (getBalance address otherArg now net (s\<lparr>cache := otherCache\<rparr>))) = k"
      by simp_all }
  { fix addressArg wallet :: "string option"
    assume a: "(case addressArg of Some a \<Rightarrow> if a = [] then wallet else Some a
                | None \<Rightarrow> wallet) = Some address \<and> address \<noteq> []"
    from BlockchainService_getBalance_same[OF a[THEN conjunct1] a[THEN conjunct2] g]
    show "fst (BlockchainService_getBalance addressArg wallet now net s) = r"
      and "snd (snd (BlockchainService_getBalance addressArg wallet now net s)) = k"
      and "cache (fst (snd (BlockchainService_getBalance addressArg wallet now net s))) =
          Map.empty"
      by simp_all }
  { fix addressArg wallet :: "string option"
    assume "(case addressArg of Some a \<Rightarrow> if a = [] then wallet else Some a
              | None \<Rightarrow> wallet) = None \<or>
            (case addressArg of Some a \<Rightarrow> if a = [] then wallet else Some a
              | None \<Rightarrow> wallet) = Some []"
    then show "BlockchainService_getBalance addressArg wallet now net s =
          (Inl ''no address given and the wallet is not initialised'', s, 0)"
      by (rule BlockchainService_getBalance_unresolved) }
  have miss: "(0::int) > 0 \<longrightarrow> fst (getFromCache now (getCacheKey ''getBalance'' [address]) (cache ?p)) = None"
    by simp
  note m = executeRequest_miss[OF miss e]
  { assume "filter isHealthy (nodes s) \<noteq> []"
    with m show "1 \<le> k" by simp }
  { assume "filter isHealthy (nodes s) = []"
    with m show "k = 0" and "r = Inl ''no RPC node available''" by simp_all }
  { fix v assume "r = Inr v"
    with m show "1 \<le> k" and "outcome (net (k - 1)) = Inr v"
      by (simp_all add: dispatch_def knownOperations_def) }
  { fix key
    from m have "cache s' = purgeBalance address (cache s)"
      by (cases r) auto
    then show "cache s' key =
        (if startsWith key ''getBalance:'' \<or> includesStr key ''getBalance'' \<or>
            includesStr key address
         then None else cache s key)"
      by (simp add: purgeBalance_def) }
qed

theorem getBalance_never_cached_witness:
  "cache staleBalancePool (getCacheKey ''getBalance'' [''0xabc'']) = Some gasPriceEntry \<and>
   1100 - timestamp gasPriceEntry \<le> ttl gasPriceEntry \<and>
   filter isHealthy (nodes staleBalancePool) \<noteq> [] \<and>
   fst (getBalance ''0xabc'' (Some 60000) 1100 (\<lambda>i. goodAttempt) staleBalancePool) = Inr 7 \<and>
   snd (snd (getBalance ''0xabc'' (Some 60000) 1100 (\<lambda>i. goodAttempt) staleBalancePool)) = 1 \<and>
   outcome goodAttempt = Inr 7 \<and>
   cache (fst (snd (getBalance ''0xabc'' (Some 60000) 1100 (\<lambda>i. goodAttempt) staleBalancePool)))
     (getCacheKey ''getBalance'' [''0xabc'']) = None \<and>
   fst (BlockchainService_getBalance (Some ''0xabc'') None 1100 (\<lambda>i. goodAttempt)
          staleBalancePool) = Inr 7 \<and>
   fst (BlockchainService_getBalance None (Some ''0xabc'') 1100 (\<lambda>i. goodAttempt)
          staleBalancePool) = Inr 7 \<and>
   cache (fst (snd (BlockchainService_getBalance None (Some ''0xabc'') 1100 (\<lambda>i. goodAttempt)
          staleBalancePool))) = Map.empty \<and>
   BlockchainService_getBalance None None 1100 (\<lambda>i. goodAttempt) staleBalancePool =
     (Inl ''no address given and the wallet is not initialised'', staleBalancePool, 0)"
  using getBalance_never_cached[where address="''0xabc''" and cacheTimeArg="Some 60000"
      and now=1100 and net="\<lambda>i. goodAttempt" and s=staleBalancePool
      and r="fst (getBalance ''0xabc'' (Some 60000) 1100 (\<lambda>i. goodAttempt) staleBalancePool)"
      and s'="fst (snd (getBalance ''0xabc'' (Some 60000) 1100 (\<lambda>i. goodAttempt) staleBalancePool))"
      and k="snd (snd (getBalance ''0xabc'' (Some 60000) 1100 (\<lambda>i. goodAttempt) staleBalancePool))"]
  by (simp add: pool_eval getBalance_def clearCacheForOperation_def deleteKeys_def
      startsWith_def includesStr_def BlockchainService_getBalance_def)

text \<open>
  The claim as written fails: not every call performs a network fetch. After three failed
  requests the only endpoint of the pool is unhealthy; \<open>getBalance\<close>, and the service's
  \<open>getBalance\<close> with the wallet's address, then throw without a single network call,
  although the network would answer.
\<close>

theorem no_healthy_endpoint_no_fetch:
  "map isHealthy (nodes downPool) = [False] \<and>
   fst (getBalance ''0xabc'' None 0 (\<lambda>i. goodAttempt) downPool) = Inl ''no RPC node available'' \<and>
   snd (snd (getBalance ''0xabc'' None 0 (\<lambda>i. goodAttempt) downPool)) = 0 \<and>
   fst (BlockchainService_getBalance None (Some ''0xabc'') 0 (\<lambda>i. goodAttempt) downPool) =
     Inl ''no RPC node available'' \<and>
   snd (snd (BlockchainService_getBalance None (Some ''0xabc'') 0 (\<lambda>i. goodAttempt) downPool)) = 0"
proof -
  have h: "filter isHealthy (nodes downPool) = []"
    using downPool_nodes by (cases "nodes downPool") (auto split: if_splits)
  have g: "\<And>s::int RpcOptimizer. filter isHealthy (nodes s) = [] \<Longrightarrow>
      fst (getBalance ''0xabc'' (Some 0) 0 (\<lambda>i. goodAttempt) s) = Inl ''no RPC node available'' \<and>
      snd (snd (getBalance ''0xabc'' (Some 0) 0 (\<lambda>i. goodAttempt) s)) = 0"
    by (simp add: getBalance_purge executeRequest_uncached)
  have g': "fst (getBalance ''0xabc'' None 0 (\<lambda>i. goodAttempt) downPool) = Inl ''no RPC node available'' \<and>
      snd (snd (getBalance ''0xabc'' None 0 (\<lambda>i. goodAttempt) downPool)) = 0"
    using h by (simp add: getBalance_purge executeRequest_uncached)
  have b: "BlockchainService_getBalance None (Some ''0xabc'') 0 (\<lambda>i. goodAttempt) downPool =
      getBalance ''0xabc'' (Some 0) 0 (\<lambda>i. goodAttempt) (downPool\<lparr>cache := Map.empty\<rparr>)"
    by (rule BlockchainService_getBalance_resolved) simp_all
  from g[of "downPool\<lparr>cache := Map.empty\<rparr>"] h g' b downPool_nodes show ?thesis by simp
qed

section \<open>Properties of gas pricing\<close>

lemma scalePrice_mono:
  assumes "mono rnd" "rnd 0 = 0" "0 \<le> price" "m1 \<le> m2"
  shows "scalePrice rnd price m1 \<le> scalePrice rnd price m2"
proof -
  have "rnd 0 \<le> rnd (real_of_int price)"
    using assms(3) by (simp add: monoD[OF assms(1)])
  then have "0 \<le> rnd (real_of_int price)" using assms(2) by simp
  with assms(4) have "rnd (real_of_int price) * m1 \<le> rnd (real_of_int price) * m2"
    by (simp add: mult_left_mono)
  then have "rnd (rnd (real_of_int price) * m1) \<le> rnd (rnd (real_of_int price) * m2)"
    by (rule monoD[OF assms(1)])
  then show ?thesis unfolding scalePrice_def by (rule floor_mono)
qed

lemma GAS_STRATEGIES_order:
  assumes "mono rnd"
  shows "GAS_STRATEGIES rnd Safe \<le> GAS_STRATEGIES rnd Standard"
    and "GAS_STRATEGIES rnd Standard \<le> GAS_STRATEGIES rnd Fast"
  using monoD[OF assms, of 1 "6 / 5"] monoD[OF assms, of "6 / 5" "3 / 2"]
  by (simp_all add: GAS_STRATEGIES_def)

lemma priceGas_totalCost:
  "totalCost (priceGas rnd estimated feeData s c) =
     finalGasLimitOf s c estimated *
       scalePrice rnd (effectivePrice feeData) (gasMultiplierOf rnd s c)"
  by (simp add: priceGas_def effectivePrice_def Let_def)

lemma effectivePrice_nonneg: "feesNonNegative feeData \<Longrightarrow> 0 \<le> effectivePrice feeData"
  by (auto simp: feesNonNegative_def effectivePrice_def truthy_def split: option.splits)

lemma priceGas_mono:
  assumes rnd: "mono rnd" "rnd 0 = 0"
    and fees: "feesNonNegative feeData"
    and limit: "0 \<le> estimated"
    and s1: "s1 \<noteq> Custom" and s2: "s2 \<noteq> Custom"
    and le: "GAS_STRATEGIES rnd s1 \<le> GAS_STRATEGIES rnd s2"
  shows "totalCost (priceGas rnd estimated feeData s1 c1) \<le>
         totalCost (priceGas rnd estimated feeData s2 c2)"
proof -
  have m: "gasMultiplierOf rnd s1 c1 \<le> gasMultiplierOf rnd s2 c2"
    using s1 s2 le by (simp add: gasMultiplierOf_def split: option.splits)
  have l: "finalGasLimitOf s1 c1 estimated = estimated" "finalGasLimitOf s2 c2 estimated = estimated"
    using s1 s2 by (simp_all add: finalGasLimitOf_def split: option.splits)
  have "scalePrice rnd (effectivePrice feeData) (gasMultiplierOf rnd s1 c1) \<le>
        scalePrice rnd (effectivePrice feeData) (gasMultiplierOf rnd s2 c2)"
    using rnd effectivePrice_nonneg[OF fees] m by (rule scalePrice_mono)
  then have "estimated * scalePrice rnd (effectivePrice feeData) (gasMultiplierOf rnd s1 c1) \<le>
        estimated * scalePrice rnd (effectivePrice feeData) (gasMultiplierOf rnd s2 c2)"
    using limit by (rule mult_left_mono)
  then show ?thesis by (simp only: priceGas_totalCost l)
qed

lemma crazyMode_floor:
  "crazyMode cfg \<Longrightarrow> 5 \<le> gasMultiplierOf rnd Custom (Some cfg)"
  by (simp add: gasMultiplierOf_def)

lemmas gas_eval = estimateGasOnce_def priceGas_def gasMultiplierOf_def finalGasLimitOf_def
  GAS_STRATEGIES_def scalePrice_def truthy_def truthyNumber_def silenceMultiplierOf_def
  estimateSilenceGas_def legacyFees_def marketFees_def calmChain_def rescueConfig_def
  feesNonNegative_def Let_def

lemma retryWithBackoff_first:
  "operation n = Inr v \<Longrightarrow> retryWithBackoff operation n = Inr v"
  by (subst retryWithBackoff.simps) simp

lemma estimateGas_first:
  "estimateGasOnce rnd wallet v (answers 0) gasStrategy customGasConfig = Inr g \<Longrightarrow>
   estimateGas rnd wallet v answers gasStrategy customGasConfig = Inr g"
  by (simp add: estimateGas_def retryWithBackoff_first)

lemma calm_estimate:
  "estimateGas (\<lambda>x. x) (Some w) (Inr v) (\<lambda>n. calmChain) Safe None =
     Inr \<lparr>gasLimit = 21000, gasPrice = 40000000000, maxFeePerGas = Some 40000000000,
          maxPriorityFeePerGas = Some 30000000000, totalCost = 840000000000000\<rparr>"
  by (rule estimateGas_first) (simp add: gas_eval)

lemma retryWithBackoff_success:
  "retryWithBackoff operation k = Inr g \<Longrightarrow> \<exists>n\<ge>k. operation n = Inr g"
proof (induction operation k rule: retryWithBackoff.induct)
  case (1 operation retryCount)
  show ?case
  proof (cases "operation retryCount")
    case (Inr v)
    with "1.prems" have "v = g" by (subst (asm) retryWithBackoff.simps) simp
    with Inr show ?thesis by auto
  next
    case (Inl e)
    with "1.prems" have c: "isRateLimitError e \<and> retryCount < REQUEST_CONFIG_maxRetries"
      and r: "retryWithBackoff operation (retryCount + 1) = Inr g"
      by (subst (asm) retryWithBackoff.simps, simp split: if_splits)+
    from "1.IH"[OF Inl c r] obtain n where "n \<ge> retryCount + 1" "operation n = Inr g" by blast
    then show ?thesis by (intro exI[of _ n]) simp
  qed
qed

lemma estimateGas_success:
  "estimateGas rnd wallet parsed answers gasStrategy customGasConfig = Inr g \<Longrightarrow>
   \<exists>n. estimateGasOnce rnd wallet parsed (answers n) gasStrategy customGasConfig = Inr g"
  unfolding estimateGas_def by (drule retryWithBackoff_success) blast

lemma calm_standard:
  "estimateGas (\<lambda>x. x) (Some w) (Inr v) (\<lambda>n. calmChain) Standard None =
     Inr \<lparr>gasLimit = 21000, gasPrice = 48000000000, maxFeePerGas = Some 48000000000,
          maxPriorityFeePerGas = Some 36000000000, totalCost = 1008000000000000\<rparr>"
  by (rule estimateGas_first) (simp add: gas_eval)

lemma calm_fast:
  "estimateGas (\<lambda>x. x) (Some w) (Inr v) (\<lambda>n. calmChain) Fast None =
     Inr \<lparr>gasLimit = 21000, gasPrice = 60000000000, maxFeePerGas = Some 60000000000,
          maxPriorityFeePerGas = Some 45000000000, totalCost = 1260000000000000\<rparr>"
  by (rule estimateGas_first) (simp add: gas_eval)

lemma fee_order_once:
  "mono rnd \<and> rnd 0 = 0 \<and> feesNonNegative feeData \<and> 0 \<le> estimated \<and>
   estimateGasAnswer answers = Inr estimated \<and> feeDataAnswer answers = Inr feeData \<and>
   estimateGasOnce rnd wallet parsed answers Safe c1 = Inr safe \<and>
   estimateGasOnce rnd wallet parsed answers Standard c2 = Inr standard \<and>
   estimateGasOnce rnd wallet parsed answers Fast c3 = Inr fast \<longrightarrow>
     totalCost safe \<le> totalCost standard \<and> totalCost standard \<le> totalCost fast \<and>
     gasLimit safe = estimated \<and> gasLimit standard = estimated \<and> gasLimit fast = estimated \<and>
     gasMultiplierOf rnd Safe c1 = rnd 1 \<and> gasMultiplierOf rnd Standard c2 = rnd (6 / 5) \<and>
     gasMultiplierOf rnd Fast c3 = rnd (3 / 2)"
proof (intro impI, elim conjE)
  assume rnd: "mono rnd" "rnd 0 = 0" and fees: "feesNonNegative feeData"
    and limit: "0 \<le> estimated"
    and a: "estimateGasAnswer answers = Inr estimated" "feeDataAnswer answers = Inr feeData"
    and r: "estimateGasOnce rnd wallet parsed answers Safe c1 = Inr safe"
      "estimateGasOnce rnd wallet parsed answers Standard c2 = Inr standard"
      "estimateGasOnce rnd wallet parsed answers Fast c3 = Inr fast"
  from r a have e: "safe = priceGas rnd estimated feeData Safe c1"
    "standard = priceGas rnd estimated feeData Standard c2"
    "fast = priceGas rnd estimated feeData Fast c3"
    by (auto simp: estimateGasOnce_def split: option.splits sum.splits)
  have l: "\<And>s c. s \<noteq> Custom \<Longrightarrow> gasLimit (priceGas rnd estimated feeData s c) = estimated"
    by (simp add: priceGas_def Let_def finalGasLimitOf_def split: option.splits)
  have m: "\<And>s c. s \<noteq> Custom \<Longrightarrow> gasMultiplierOf rnd s c = GAS_STRATEGIES rnd s"
    by (simp add: gasMultiplierOf_def split: option.splits)
  show "totalCost safe \<le> totalCost standard \<and> totalCost standard \<le> totalCost fast \<and>
     gasLimit safe = estimated \<and> gasLimit standard = estimated \<and> gasLimit fast = estimated \<and>
     gasMultiplierOf rnd Safe c1 = rnd 1 \<and> gasMultiplierOf rnd Standard c2 = rnd (6 / 5) \<and>
     gasMultiplierOf rnd Fast c3 = rnd (3 / 2)"
    unfolding e
    using priceGas_mono[OF rnd fees limit _ _ GAS_STRATEGIES_order(1)[OF rnd(1)], of c1 c2]
      priceGas_mono[OF rnd fees limit _ _ GAS_STRATEGIES_order(2)[OF rnd(1)], of c2 c3]
    by (simp add: l m GAS_STRATEGIES_def)
qed


lemma priceGas_priced:
  "pricedWith rnd feeData (gasMultiplierOf rnd s c) (priceGas rnd estimated feeData s c) \<and>
   totalCost (priceGas rnd estimated feeData s c) =
     gasLimit (priceGas rnd estimated feeData s c) * gasPrice (priceGas rnd estimated feeData s c)"
  by (simp add: priceGas_def pricedWith_def Let_def)

lemma estimateGasOnce_priced:
  "estimateGasOnce rnd wallet parsed answers s c = Inr g \<Longrightarrow>
   \<exists>estimated feeData. estimateGasAnswer answers = Inr estimated \<and>
      feeDataAnswer answers = Inr feeData \<and> g = priceGas rnd estimated feeData s c"
  by (auto simp: estimateGasOnce_def split: option.splits sum.splits)

lemma estimateGasOnce_pricedWith:
  assumes "estimateGasOnce rnd wallet parsed answers s c = Inr g"
    and "feeDataAnswer answers = Inr feeData"
  shows "pricedWith rnd feeData (gasMultiplierOf rnd s c) g \<and>
         totalCost g = gasLimit g * gasPrice g"
proof -
  from estimateGasOnce_priced[OF assms(1)] assms(2)
  obtain estimated where "g = priceGas rnd estimated feeData s c" by auto
  then show ?thesis by (simp only: priceGas_priced)
qed

lemma estimateSilenceGas_priced:
  assumes "rescueMode gasConfig = Some True" "rescueGasMultiplier gasConfig = Some m" "m \<noteq> 0"
    and "amountWei = Inr amount" "estimateGasAnswer answers = Inr estimated"
    and "feeDataAnswer answers = Inr feeData"
    and "silenceGasLimit gasConfig = None \<or> (\<exists>l. silenceGasLimit gasConfig = Some (Inr l))"
  shows "silenceMultiplierOf gasConfig = m \<and>
         silencePricedWith rnd feeData m (estimateSilenceGas rnd amountWei answers gasConfig)"
  using assms
  by (auto simp: estimateSilenceGas_def silenceMultiplierOf_def silencePricedWith_def
      truthyNumber_def Let_def)

lemma crazy_estimate:
  "estimateGas (\<lambda>x. x) (Some w) (Inr v) (\<lambda>n. calmChain) Custom (Some crazyConfig) =
     Inr \<lparr>gasLimit = 21000, gasPrice = 200000000000, maxFeePerGas = Some 200000000000,
          maxPriorityFeePerGas = Some 150000000000, totalCost = 4200000000000000\<rparr>"
  by (rule estimateGas_first) (simp add: gas_eval crazyConfig_def)

lemma crazy_token_estimate:
  "estimateTokenGas (\<lambda>x. x) (Some w) (Inr v) calmChain Custom (Some crazyConfig) =
     Inr \<lparr>gasLimit = 21000, gasPrice = 200000000000, maxFeePerGas = Some 200000000000,
          maxPriorityFeePerGas = Some 150000000000, totalCost = 4200000000000000\<rparr>"
  by (simp add: estimateTokenGas_def gas_eval crazyConfig_def)

lemma rescue_silence_estimate:
  "estimateSilenceGas (\<lambda>x. x) (Inr 1000000000000000000) calmChain rescueConfig =
     \<lparr>sGasLimit = 21000, sGasPrice = None, sMaxFeePerGas = Some 120000000000,
      sMaxPriorityFeePerGas = Some 90000000000\<rparr>"
  by (simp add: gas_eval)


text \<open>
  Claim C8. Let the rounding of numbers be monotone and exact at 0, the fee data free of
  negative fields and the estimated gas limit not negative. When the chain gives these
  answers on every run, the estimates that \<open>estimateGas\<close> returns under the strategies
  safe, standard and fast have total costs in ascending order. All three use the estimated
  gas limit, and their price fields are the fee data scaled by the multipliers 1.0, 1.2
  and 1.5: with both EIP-1559 fields in the fee data, the maximum fee and the priority fee
  are each multiplied and the gas price is the multiplied maximum fee; otherwise the
  legacy gas price is multiplied. The total cost is the gas limit times the gas price of
  the result.
\<close>

theorem fee_monotone_in_strategy:
  "mono rnd \<and> rnd 0 = 0 \<and> feesNonNegative feeData \<and> 0 \<le> estimated \<and>
   estimateGasAnswer answers = Inr estimated \<and> feeDataAnswer answers = Inr feeData \<and>
   estimateGas rnd wallet parsed (\<lambda>n. answers) Safe c1 = Inr safe \<and>
   estimateGas rnd wallet parsed (\<lambda>n. answers) Standard c2 = Inr standard \<and>
   estimateGas rnd wallet parsed (\<lambda>n. answers) Fast c3 = Inr fast \<longrightarrow>
     totalCost safe \<le> totalCost standard \<and> totalCost standard \<le> totalCost fast \<and>
     gasLimit safe = estimated \<and> gasLimit standard = estimated \<and> gasLimit fast = estimated \<and>
     gasMultiplierOf rnd Safe c1 = rnd 1 \<and> gasMultiplierOf rnd Standard c2 = rnd (6 / 5) \<and>
     gasMultiplierOf rnd Fast c3 = rnd (3 / 2) \<and>
     pricedWith rnd feeData (rnd 1) safe \<and>
     pricedWith rnd feeData (rnd (6 / 5)) standard \<and>
     pricedWith rnd feeData (rnd (3 / 2)) fast \<and>
     totalCost safe = estimated * gasPrice safe \<and>
     totalCost standard = estimated * gasPrice standard \<and>
     totalCost fast = estimated * gasPrice fast"
proof (intro impI, elim conjE)
  assume rnd: "mono rnd" "rnd 0 = 0" and fees: "feesNonNegative feeData"
    and limit: "0 \<le> estimated"
    and a: "estimateGasAnswer answers = Inr estimated" "feeDataAnswer answers = Inr feeData"
    and "estimateGas rnd wallet parsed (\<lambda>n. answers) Safe c1 = Inr safe"
      "estimateGas rnd wallet parsed (\<lambda>n. answers) Standard c2 = Inr standard"
      "estimateGas rnd wallet parsed (\<lambda>n. answers) Fast c3 = Inr fast"
  then have once: "estimateGasOnce rnd wallet parsed answers Safe c1 = Inr safe"
    "estimateGasOnce rnd wallet parsed answers Standard c2 = Inr standard"
    "estimateGasOnce rnd wallet parsed answers Fast c3 = Inr fast"
    by (auto dest: estimateGas_success)
  with rnd fees limit a
  have order: "totalCost safe \<le> totalCost standard \<and> totalCost standard \<le> totalCost fast \<and>
     gasLimit safe = estimated \<and> gasLimit standard = estimated \<and> gasLimit fast = estimated \<and>
     gasMultiplierOf rnd Safe c1 = rnd 1 \<and> gasMultiplierOf rnd Standard c2 = rnd (6 / 5) \<and>
     gasMultiplierOf rnd Fast c3 = rnd (3 / 2)"
    using fee_order_once[of rnd feeData estimated answers wallet parsed c1 safe c2 standard c3 fast]
    by blast
  note p1 = estimateGasOnce_pricedWith[OF once(1) a(2)]
    and p2 = estimateGasOnce_pricedWith[OF once(2) a(2)]
    and p3 = estimateGasOnce_pricedWith[OF once(3) a(2)]
  have t: "totalCost safe = estimated * gasPrice safe"
    "totalCost standard = estimated * gasPrice standard"
    "totalCost fast = estimated * gasPrice fast"
    using order p1 p2 p3 by auto
  have p: "pricedWith rnd feeData (rnd 1) safe"
    "pricedWith rnd feeData (rnd (6 / 5)) standard"
    "pricedWith rnd feeData (rnd (3 / 2)) fast"
    using order p1 p2 p3 by auto
  from order p t
  show "totalCost safe \<le> totalCost standard \<and> totalCost standard \<le> totalCost fast \<and>
     gasLimit safe = estimated \<and> gasLimit standard = estimated \<and> gasLimit fast = estimated \<and>
     gasMultiplierOf rnd Safe c1 = rnd 1 \<and> gasMultiplierOf rnd Standard c2 = rnd (6 / 5) \<and>
     gasMultiplierOf rnd Fast c3 = rnd (3 / 2) \<and>
     pricedWith rnd feeData (rnd 1) safe \<and>
     pricedWith rnd feeData (rnd (6 / 5)) standard \<and>
     pricedWith rnd feeData (rnd (3 / 2)) fast \<and>
     totalCost safe = estimated * gasPrice safe \<and>
     totalCost standard = estimated * gasPrice standard \<and>
     totalCost fast = estimated * gasPrice fast"
    by blast
qed

theorem fee_monotone_in_strategy_witness:
  "mono (\<lambda>x::real. x) \<and> feesNonNegative marketFees \<and>
   estimateGasAnswer calmChain = Inr 21000 \<and> feeDataAnswer calmChain = Inr marketFees \<and>
   estimateGas (\<lambda>x. x) (Some ''0xabc'') (Inr 1000) (\<lambda>n. calmChain) Safe None =
     Inr \<lparr>gasLimit = 21000, gasPrice = 40000000000, maxFeePerGas = Some 40000000000,
          maxPriorityFeePerGas = Some 30000000000, totalCost = 840000000000000\<rparr> \<and>
   estimateGas (\<lambda>x. x) (Some ''0xabc'') (Inr 1000) (\<lambda>n. calmChain) Standard None =
     Inr \<lparr>gasLimit = 21000, gasPrice = 48000000000, maxFeePerGas = Some 48000000000,
          maxPriorityFeePerGas = Some 36000000000, totalCost = 1008000000000000\<rparr> \<and>
   estimateGas (\<lambda>x. x) (Some ''0xabc'') (Inr 1000) (\<lambda>n. calmChain) Fast None =
     Inr \<lparr>gasLimit = 21000, gasPrice = 60000000000, maxFeePerGas = Some 60000000000,
          maxPriorityFeePerGas = Some 45000000000, totalCost = 1260000000000000\<rparr> \<and>
   (840000000000000::int) \<le> 1008000000000000 \<and> (1008000000000000::int) \<le> 1260000000000000"
proof -
  have a: "estimateGasAnswer calmChain = Inr 21000" "feeDataAnswer calmChain = Inr marketFees"
    by (simp_all add: calmChain_def)
  have f: "feesNonNegative marketFees"
    by (simp add: feesNonNegative_def marketFees_def)
  have m: "mono (\<lambda>x::real. x)"
    by (simp add: mono_def)
  show ?thesis
    using fee_monotone_in_strategy[where rnd="\<lambda>x. x" and feeData=marketFees and estimated=21000
        and answers=calmChain and wallet="Some ''0xabc''" and parsed="Inr 1000"
        and ?c1.0=None and ?c2.0=None and ?c3.0=None
        and safe="\<lparr>gasLimit = 21000, gasPrice = 40000000000, maxFeePerGas = Some 40000000000,
            maxPriorityFeePerGas = Some 30000000000, totalCost = 840000000000000\<rparr>"
        and standard="\<lparr>gasLimit = 21000, gasPrice = 48000000000, maxFeePerGas = Some 48000000000,
            maxPriorityFeePerGas = Some 36000000000, totalCost = 1008000000000000\<rparr>"
        and fast="\<lparr>gasLimit = 21000, gasPrice = 60000000000, maxFeePerGas = Some 60000000000,
            maxPriorityFeePerGas = Some 45000000000, totalCost = 1260000000000000\<rparr>"]
    by (simp add: calm_estimate calm_standard calm_fast a f m)
qed


text \<open>
  Claim C5, as the code has it. Under the custom strategy with the crazy flag set, the
  multiplier of \<open>estimateGas\<close> and of \<open>estimateTokenGas\<close> is the larger of the caller's
  multiplier and 5, so it is at least 5, and the price fields of every estimate they return
  are the fee data scaled by it. The silence operation has no crazy flag: with its rescue
  flag set and a rescue multiplier other than 0, the multiplier of \<open>estimateSilenceGas\<close>
  is the rescue multiplier as the caller gave it, with no floor, and the price fields of its
  estimate are the fee data scaled by that multiplier.
\<close>

theorem aggression_multiplier_by_site:
  "(crazyMode cfg \<and> estimateGas rnd wallet parsed answers Custom (Some cfg) = Inr g \<longrightarrow>
      gasMultiplierOf rnd Custom (Some cfg) = max (gasMultiplier cfg) 5 \<and>
      5 \<le> gasMultiplierOf rnd Custom (Some cfg) \<and>
      (\<exists>n feeData. feeDataAnswer (answers n) = Inr feeData \<and>
         pricedWith rnd feeData (max (gasMultiplier cfg) 5) g)) \<and>
   (crazyMode cfg \<and> estimateTokenGas rnd wallet parsed tokenAnswers Custom (Some cfg) = Inr g' \<longrightarrow>
      (\<exists>feeData. feeDataAnswer tokenAnswers = Inr feeData \<and>
         pricedWith rnd feeData (max (gasMultiplier cfg) 5) g')) \<and>
   (rescueMode gasConfig = Some True \<and> rescueGasMultiplier gasConfig = Some m \<and> m \<noteq> 0 \<and>
    amountWei = Inr amount \<and> estimateGasAnswer silenceAnswers = Inr estimated \<and>
    feeDataAnswer silenceAnswers = Inr silenceFees \<and>
    (silenceGasLimit gasConfig = None \<or> (\<exists>l. silenceGasLimit gasConfig = Some (Inr l))) \<longrightarrow>
      silenceMultiplierOf gasConfig = m \<and>
      silencePricedWith rnd silenceFees m
        (estimateSilenceGas rnd amountWei silenceAnswers gasConfig))"
proof (intro conjI impI)
  assume c: "crazyMode cfg \<and> estimateGas rnd wallet parsed answers Custom (Some cfg) = Inr g"
  then have m: "gasMultiplierOf rnd Custom (Some cfg) = max (gasMultiplier cfg) 5"
    by (simp add: gasMultiplierOf_def)
  show "gasMultiplierOf rnd Custom (Some cfg) = max (gasMultiplier cfg) 5" by (rule m)
  show "5 \<le> gasMultiplierOf rnd Custom (Some cfg)" by (simp add: m)
  from c obtain n where
    once: "estimateGasOnce rnd wallet parsed (answers n) Custom (Some cfg) = Inr g"
    by (auto dest: estimateGas_success)
  from estimateGasOnce_priced[OF once] obtain feeData where
    f: "feeDataAnswer (answers n) = Inr feeData" by blast
  from estimateGasOnce_pricedWith[OF once f] m f
  show "\<exists>n feeData. feeDataAnswer (answers n) = Inr feeData \<and>
         pricedWith rnd feeData (max (gasMultiplier cfg) 5) g"
    by auto
next
  assume c: "crazyMode cfg \<and>
    estimateTokenGas rnd wallet parsed tokenAnswers Custom (Some cfg) = Inr g'"
  then have m: "gasMultiplierOf rnd Custom (Some cfg) = max (gasMultiplier cfg) 5"
    by (simp add: gasMultiplierOf_def)
  from c have once: "estimateGasOnce rnd wallet parsed tokenAnswers Custom (Some cfg) = Inr g'"
    by (simp add: estimateTokenGas_def split: sum.splits)
  from estimateGasOnce_priced[OF once] obtain feeData where
    f: "feeDataAnswer tokenAnswers = Inr feeData" by blast
  from estimateGasOnce_pricedWith[OF once f] m f
  show "\<exists>feeData. feeDataAnswer tokenAnswers = Inr feeData \<and>
         pricedWith rnd feeData (max (gasMultiplier cfg) 5) g'"
    by auto
next
  assume s: "rescueMode gasConfig = Some True \<and> rescueGasMultiplier gasConfig = Some m \<and> m \<noteq> 0 \<and>
    amountWei = Inr amount \<and> estimateGasAnswer silenceAnswers = Inr estimated \<and>
    feeDataAnswer silenceAnswers = Inr silenceFees \<and>
    (silenceGasLimit gasConfig = None \<or> (\<exists>l. silenceGasLimit gasConfig = Some (Inr l)))"
  then have "silenceMultiplierOf gasConfig = m \<and>
      silencePricedWith rnd silenceFees m
        (estimateSilenceGas rnd amountWei silenceAnswers gasConfig)"
    by (intro estimateSilenceGas_priced) blast+
  then show "silenceMultiplierOf gasConfig = m"
    and "silencePricedWith rnd silenceFees m
        (estimateSilenceGas rnd amountWei silenceAnswers gasConfig)" by blast+
qed

theorem aggression_multiplier_by_site_witness:
  "crazyMode crazyConfig \<and> gasMultiplier crazyConfig = 3 \<and>
   estimateGas (\<lambda>x. x) (Some ''0xabc'') (Inr 1000) (\<lambda>n. calmChain) Custom (Some crazyConfig) =
     Inr \<lparr>gasLimit = 21000, gasPrice = 200000000000, maxFeePerGas = Some 200000000000,
          maxPriorityFeePerGas = Some 150000000000, totalCost = 4200000000000000\<rparr> \<and>
   estimateTokenGas (\<lambda>x. x) (Some ''0xabc'') (Inr 1000) calmChain Custom (Some crazyConfig) =
     Inr \<lparr>gasLimit = 21000, gasPrice = 200000000000, maxFeePerGas = Some 200000000000,
          maxPriorityFeePerGas = Some 150000000000, totalCost = 4200000000000000\<rparr> \<and>
   gasMultiplierOf (\<lambda>x. x) Custom (Some crazyConfig) = 5 \<and>
   rescueMode rescueConfig = Some True \<and> rescueGasMultiplier rescueConfig = Some 3 \<and>
   silenceGasLimit rescueConfig = None \<and>
   estimateGasAnswer calmChain = Inr 21000 \<and> feeDataAnswer calmChain = Inr marketFees \<and>
   silenceMultiplierOf rescueConfig = 3 \<and>
   estimateSilenceGas (\<lambda>x. x) (Inr 1000000000000000000) calmChain rescueConfig =
     \<lparr>sGasLimit = 21000, sGasPrice = None, sMaxFeePerGas = Some 120000000000,
      sMaxPriorityFeePerGas = Some 90000000000\<rparr>"
proof -
  have c: "crazyMode crazyConfig" "gasMultiplier crazyConfig = 3"
    by (simp_all add: crazyConfig_def)
  have r: "rescueMode rescueConfig = Some True" "rescueGasMultiplier rescueConfig = Some 3"
    "silenceGasLimit rescueConfig = None"
    by (simp_all add: rescueConfig_def)
  have a: "estimateGasAnswer calmChain = Inr 21000" "feeDataAnswer calmChain = Inr marketFees"
    by (simp_all add: calmChain_def)
  show ?thesis
    using aggression_multiplier_by_site[where cfg=crazyConfig and rnd="\<lambda>x. x"
        and wallet="Some ''0xabc''" and parsed="Inr 1000" and answers="\<lambda>n. calmChain"
        and tokenAnswers=calmChain and gasConfig=rescueConfig and m=3
        and amountWei="Inr 1000000000000000000" and amount=1000000000000000000
        and silenceAnswers=calmChain and estimated=21000 and silenceFees=marketFees
        and g="\<lparr>gasLimit = 21000, gasPrice = 200000000000, maxFeePerGas = Some 200000000000,
          maxPriorityFeePerGas = Some 150000000000, totalCost = 4200000000000000\<rparr>"
        and g'="\<lparr>gasLimit = 21000, gasPrice = 200000000000, maxFeePerGas = Some 200000000000,
          maxPriorityFeePerGas = Some 150000000000, totalCost = 4200000000000000\<rparr>"]
    by (simp add: crazy_estimate crazy_token_estimate rescue_silence_estimate c r a)
qed

text \<open>
  The claim as written fails at the silence operation. With the rescue flag set and the
  rescue multiplier 3, \<open>estimateSilenceGas\<close> multiplies the fee fields by 3 (a maximum fee of
  40 gwei becomes 120 gwei), whereas the transfer estimators with the crazy flag set raise
  the same multiplier 3 to the floor 5.
\<close>

theorem silence_rescue_multiplier_below_floor:
  "rescueMode rescueConfig = Some True \<and>
   silenceMultiplierOf rescueConfig = 3 \<and>
   estimateSilenceGas (\<lambda>x. x) (Inr 1000000000000000000) calmChain rescueConfig =
     \<lparr>sGasLimit = 21000, sGasPrice = None, sMaxFeePerGas = Some 120000000000,
      sMaxPriorityFeePerGas = Some 90000000000\<rparr> \<and>
   gasMultiplierOf (\<lambda>x. x) Custom
     (Some \<lparr>gasMultiplier = 3, customGasLimit = None, crazyMode = True\<rparr>) = 5"
  by (simp add: gas_eval)

section \<open>Properties of preflight, submission and the maximum transfer\<close>

lemma retryLoop_first:
  "operation attempt = Inr v \<Longrightarrow> attempt \<le> maxRetries \<Longrightarrow>
   retryLoop operation maxRetries attempt lastError = (Inr v, attempt)"
  by (subst retryLoop.simps) simp

lemma retryLoop_retry:
  "operation attempt = Inl e \<Longrightarrow> isRetryableError e \<Longrightarrow> attempt < maxRetries \<Longrightarrow>
   retryLoop operation maxRetries attempt lastError =
     retryLoop operation maxRetries (attempt + 1) (Some e)"
  by (subst retryLoop.simps) simp

lemma retryLoop_giveUp:
  "operation attempt = Inl e \<Longrightarrow> \<not> isRetryableError e \<or> attempt = maxRetries \<Longrightarrow>
   attempt \<le> maxRetries \<Longrightarrow>
   retryLoop operation maxRetries attempt lastError = (Inl (Some e), attempt)"
  by (subst retryLoop.simps) auto

lemma sendTransactionOnce_returns:
  "\<exists>r. sendTransactionOnce rnd isAddress wallet to v gasStrategy customGasConfig w = Inr r"
  by (simp add: sendTransactionOnce_def split: sum.splits)

lemma sendTransaction_single_attempt:
  "sendTransaction rnd isAddress wallet to v gasStrategy customGasConfig answers =
     (Inr (projr (sendTransactionOnce rnd isAddress wallet to v gasStrategy customGasConfig
                    (answers 1))), 1)"
proof -
  obtain r where r: "sendTransactionOnce rnd isAddress wallet to v gasStrategy customGasConfig
                    (answers 1) = Inr r"
    using sendTransactionOnce_returns by blast
  then show ?thesis
    by (simp add: sendTransaction_def retryTransaction_def retryLoop_first)
qed

lemma sendTokenTransaction_single_attempt:
  "sendTokenTransaction rnd isAddress wallet tokenAddress to v gasStrategy customGasConfig answers =
     (Inr (projr (sendTokenTransactionOnce rnd isAddress wallet tokenAddress to v gasStrategy
                    customGasConfig (answers 1))), 1)"
proof -
  obtain r where r: "sendTokenTransactionOnce rnd isAddress wallet tokenAddress to v gasStrategy
                    customGasConfig (answers 1) = Inr r"
    by (cases "sendTokenTransactionBody rnd isAddress wallet tokenAddress to v gasStrategy
             customGasConfig (answers 1)") (simp_all add: sendTokenTransactionOnce_def)
  then show ?thesis
    by (simp add: sendTokenTransaction_def retryTransaction_def retryLoop_first)
qed

lemmas str_eval = includesStr_def startsWith_def toLowerCase_def lowerChar_def sublist_code

lemmas tx_eval = preflightTransaction_def preflightFailed_def preflightRejected_def
  sendTransactionBody_def sendTransactionOnce_def describeSendError_def failedResult_def
  sendTokenTransactionBody_def sendTokenTransactionOnce_def describeTokenSendError_def
  estimateTokenGas_def calculateMaxBody_def calculateMaxTransferAmount_def
  healthyChain_def goodReceipt_def nonceExpired_def nonceExpiredOnce_def simpleIsAddress_def
  Error_def isRetryableError_def retryableErrors_def

lemma healthy_send:
  "sendTransactionBody (\<lambda>x. x) simpleIsAddress (Some ''0xa11c'') ''0xb0b0''
     (Inr 100000000000000000) Safe None healthyChain =
   Inr \<lparr>hash = ''0xfeed'', success = True, gasUsed = Some 21000,
        txGasPrice = Some 40000000000, errorText = None\<rparr>"
  by (simp add: tx_eval calm_estimate str_eval marketFees_def truthy_def)

lemma expired_send:
  "sendTransactionBody (\<lambda>x. x) simpleIsAddress (Some ''0xa11c'') ''0xb0b0''
     (Inr 100000000000000000) Safe None (healthyChain\<lparr>sendAnswer := Inl nonceExpired\<rparr>) =
   Inl nonceExpired"
  by (simp add: tx_eval calm_estimate str_eval marketFees_def truthy_def)

lemma nonceExpired_retryable: "isRetryableError nonceExpired"
  by (simp add: isRetryableError_def retryableErrors_def nonceExpired_def str_eval)

lemma nonceExpired_described:
  "describeSendError (message nonceExpired) =
     ''the transaction nonce has expired, please try again''"
  by (simp add: describeSendError_def nonceExpired_def str_eval)

lemma estimateTokenGas_keeps:
  "estimateTokenGas rnd wallet v answers gasStrategy customGasConfig = Inr g \<Longrightarrow>
   estimateGasOnce rnd wallet v answers gasStrategy customGasConfig = Inr g"
  by (simp add: estimateTokenGas_def split: sum.splits)

lemma poor_estimate:
  "estimateGas (\<lambda>x. x) (Some w) (Inr v) (\<lambda>n. costlyGas) Safe None =
     Inr \<lparr>gasLimit = 20000, gasPrice = 1000000000000, maxFeePerGas = None,
          maxPriorityFeePerGas = None, totalCost = 20000000000000000\<rparr>"
  by (rule estimateGas_first) (simp add: gas_eval costlyGas_def)

lemma poor_max:
  "calculateMaxTransferAmount (\<lambda>x. x) simpleIsAddress (Some ''0xa11c'') ''0xb0b0'' Native None
     Safe None (Inr 1) poorChain =
   Inr \<lparr>maxAmount = 0,
        maxGasEstimate = \<lparr>gasLimit = 20000, gasPrice = 1000000000000, maxFeePerGas = None,
          maxPriorityFeePerGas = None, totalCost = 20000000000000000\<rparr>,
        availableBalance = 10000000000000000, canTransfer = False\<rparr>"
  by (simp add: calculateMaxTransferAmount_def calculateMaxBody_def poor_estimate
      simpleIsAddress_def str_eval poorChain_def healthyChain_def)

lemma healthy_max:
  "calculateMaxTransferAmount (\<lambda>x. x) simpleIsAddress (Some ''0xa11c'') ''0xb0b0'' Native None
     Safe None (Inr 1) healthyChain =
   Inr \<lparr>maxAmount = 999160000000000000,
        maxGasEstimate = \<lparr>gasLimit = 21000, gasPrice = 40000000000,
          maxFeePerGas = Some 40000000000, maxPriorityFeePerGas = Some 30000000000,
          totalCost = 840000000000000\<rparr>,
        availableBalance = 1000000000000000000, canTransfer = True\<rparr>"
  by (simp add: calculateMaxTransferAmount_def calculateMaxBody_def
      simpleIsAddress_def str_eval healthyChain_def calm_estimate)

lemma healthy_token_max:
  "calculateMaxTransferAmount (\<lambda>x. x) simpleIsAddress (Some ''0xa11c'') ''0xb0b0'' Token
     (Some ''0xda10'') Safe None (Inr 1) healthyChain =
   Inr \<lparr>maxAmount = 5000000,
        maxGasEstimate = \<lparr>gasLimit = 21000, gasPrice = 40000000000,
          maxFeePerGas = Some 40000000000, maxPriorityFeePerGas = Some 30000000000,
          totalCost = 840000000000000\<rparr>,
        availableBalance = 5000000, canTransfer = True\<rparr>"
  by (simp add: calculateMaxTransferAmount_def calculateMaxBody_def
      simpleIsAddress_def str_eval healthyChain_def estimateTokenGas_def gas_eval)

text \<open>
  Claim C3 does not hold for \<open>preflightTransaction\<close>: it never compares the destination
  with the wallet's address. A transfer of 0.1 to the wallet's own address, with a balance
  of 1, passes preflight with no error and no warning. \<open>calculateMaxTransferAmount\<close> does
  make the comparison, ignoring case, and rejects the wallet's address as destination (here
  written in upper case).
\<close>

theorem preflight_accepts_self_transfer:
  "preflightTransaction (\<lambda>x. x) simpleIsAddress (Some ''0xa11c'') ''0xa11c''
     (Inr 100000000000000000) Safe None healthyChain =
     \<lparr>isValid = True, warnings = [], errors = [],
      gasEstimate = Some \<lparr>gasLimit = 21000, gasPrice = 40000000000,
        maxFeePerGas = Some 40000000000, maxPriorityFeePerGas = Some 30000000000,
        totalCost = 840000000000000\<rparr>\<rparr> \<and>
   calculateMaxBody (\<lambda>x. x) simpleIsAddress (Some ''0xa11c'') ''0xA11C'' Native None
     Safe None (Inr 1) healthyChain =
     Inl (Error ''cannot transfer to your own address'')"
  by (simp add: tx_eval calm_estimate str_eval marketFees_def truthy_def)

text \<open>
  Claim C2 does not hold: the operation that \<open>sendTransaction\<close> hands to the retry
  controller catches every error itself and returns a failed result, so the controller
  sees no failure and runs it once (\<open>sendTransaction_single_attempt\<close>, and
  \<open>sendTokenTransaction_single_attempt\<close> for tokens). Here the first broadcast throws an
  expired-nonce error, which is retryable, and a second attempt would succeed:
  \<open>sendTransaction\<close> returns the failure after one attempt, whereas the controller run on
  the \<open>try\<close> block alone makes a second attempt, with its own preflight and gas estimate,
  and succeeds.
\<close>

theorem retryable_failure_not_retried:
  "isRetryableError nonceExpired \<and>
   sendTransaction (\<lambda>x. x) simpleIsAddress (Some ''0xa11c'') ''0xb0b0''
     (Inr 100000000000000000) Safe None nonceExpiredOnce =
     (Inr (failedResult ''the transaction nonce has expired, please try again''), 1) \<and>
   retryTransaction
     (\<lambda>attempt. sendTransactionBody (\<lambda>x. x) simpleIsAddress (Some ''0xa11c'') ''0xb0b0''
        (Inr 100000000000000000) Safe None (nonceExpiredOnce attempt)) 3 =
     (Inr \<lparr>hash = ''0xfeed'', success = True, gasUsed = Some 21000,
           txGasPrice = Some 40000000000, errorText = None\<rparr>, 2)"
proof (intro conjI)
  show "isRetryableError nonceExpired" by (rule nonceExpired_retryable)
  have one: "nonceExpiredOnce 1 = healthyChain\<lparr>sendAnswer := Inl nonceExpired\<rparr>"
    and one': "nonceExpiredOnce (Suc 0) = healthyChain\<lparr>sendAnswer := Inl nonceExpired\<rparr>"
    and two: "nonceExpiredOnce (1 + 1) = healthyChain"
    and two': "nonceExpiredOnce (Suc (Suc 0)) = healthyChain"
    by (simp_all add: nonceExpiredOnce_def)
  show "sendTransaction (\<lambda>x. x) simpleIsAddress (Some ''0xa11c'') ''0xb0b0''
     (Inr 100000000000000000) Safe None nonceExpiredOnce =
     (Inr (failedResult ''the transaction nonce has expired, please try again''), 1)"
    by (simp add: sendTransaction_single_attempt sendTransactionOnce_def one' expired_send
        nonceExpired_described)
  let ?op = "\<lambda>attempt. sendTransactionBody (\<lambda>x. x) simpleIsAddress (Some ''0xa11c'') ''0xb0b0''
        (Inr 100000000000000000) Safe None (nonceExpiredOnce attempt)"
  have "retryLoop ?op 3 1 None = retryLoop ?op 3 (1 + 1) (Some nonceExpired)"
    by (rule retryLoop_retry) (simp_all add: one one' expired_send nonceExpired_retryable)
  also have "\<dots> = (Inr \<lparr>hash = ''0xfeed'', success = True, gasUsed = Some 21000,
           txGasPrice = Some 40000000000, errorText = None\<rparr>, 1 + 1)"
    by (rule retryLoop_first) (simp_all add: two two' healthy_send)
  finally show "retryTransaction ?op 3 =
     (Inr \<lparr>hash = ''0xfeed'', success = True, gasUsed = Some 21000,
           txGasPrice = Some 40000000000, errorText = None\<rparr>, 2)"
    by (simp add: retryTransaction_def)
qed

text \<open>
  Claim C1, as the code has it. When \<open>calculateMaxTransferAmount\<close> returns a result, the
  wallet is initialised and the destination is an address other than the wallet's own.
  For the native coin the available balance is the wallet's balance, the maximum is the
  balance minus the total gas cost, or 0 when that is not positive, and a transfer is
  possible exactly when the balance exceeds the cost; so maximum plus cost equals the
  balance whenever the balance covers the cost, and a balance below the cost gives maximum
  0 and no transfer. For a token the available balance is the token balance; gas is paid
  in the native coin and not deducted: the maximum is the whole token balance when the
  native balance covers the cost, else 0, and a transfer is possible exactly when the
  native balance covers the cost and the token balance is positive.
\<close>

theorem max_transfer_amount:
  "calculateMaxTransferAmount rnd isAddress wallet to transferType tokenAddress gasStrategy
     customGasConfig minTokenValue w = Inr m \<longrightarrow>
   (\<exists>walletAddress. wallet = Some walletAddress \<and> toLowerCase to \<noteq> toLowerCase walletAddress) \<and>
   isAddress to \<and>
   (transferType = Native \<longrightarrow>
      balanceAnswer w = Inr (availableBalance m) \<and>
      estimateGas rnd wallet (Inr (10 ^ 15)) (gasRuns w) gasStrategy customGasConfig =
        Inr (maxGasEstimate m) \<and>
      maxAmount m = max 0 (availableBalance m - totalCost (maxGasEstimate m)) \<and>
      canTransfer m = (totalCost (maxGasEstimate m) < availableBalance m) \<and>
      (totalCost (maxGasEstimate m) \<le> availableBalance m \<longrightarrow>
         maxAmount m + totalCost (maxGasEstimate m) = availableBalance m) \<and>
      (availableBalance m < totalCost (maxGasEstimate m) \<longrightarrow>
         maxAmount m = 0 \<and> \<not> canTransfer m)) \<and>
   (transferType = Token \<longrightarrow>
      tokenBalanceAnswer w = Inr (availableBalance m) \<and>
      (\<exists>ethBalanceWei. balanceAnswer w = Inr ethBalanceWei \<and>
         maxAmount m =
           (if totalCost (maxGasEstimate m) \<le> ethBalanceWei then availableBalance m else 0) \<and>
         canTransfer m =
           (totalCost (maxGasEstimate m) \<le> ethBalanceWei \<and> 0 < availableBalance m)))"
proof (intro impI)
  assume "calculateMaxTransferAmount rnd isAddress wallet to transferType tokenAddress gasStrategy
     customGasConfig minTokenValue w = Inr m"
  then have b: "calculateMaxBody rnd isAddress wallet to transferType tokenAddress gasStrategy
     customGasConfig minTokenValue w = Inr m"
    by (simp add: calculateMaxTransferAmount_def split: sum.splits)
  then obtain walletAddress where wa: "wallet = Some walletAddress"
    by (cases wallet) (simp_all add: calculateMaxBody_def)
  from b wa have addr: "isAddress to" and nonempty: "to \<noteq> []"
    by (auto simp: calculateMaxBody_def split: if_splits)
  from b wa addr nonempty have self: "toLowerCase to \<noteq> toLowerCase walletAddress"
    by (cases "walletAddress = []")
      (auto simp: calculateMaxBody_def toLowerCase_def split: if_splits)
  show "(\<exists>walletAddress. wallet = Some walletAddress \<and> toLowerCase to \<noteq> toLowerCase walletAddress) \<and>
   isAddress to \<and>
   (transferType = Native \<longrightarrow>
      balanceAnswer w = Inr (availableBalance m) \<and>
      estimateGas rnd wallet (Inr (10 ^ 15)) (gasRuns w) gasStrategy customGasConfig =
        Inr (maxGasEstimate m) \<and>
      maxAmount m = max 0 (availableBalance m - totalCost (maxGasEstimate m)) \<and>
      canTransfer m = (totalCost (maxGasEstimate m) < availableBalance m) \<and>
      (totalCost (maxGasEstimate m) \<le> availableBalance m \<longrightarrow>
         maxAmount m + totalCost (maxGasEstimate m) = availableBalance m) \<and>
      (availableBalance m < totalCost (maxGasEstimate m) \<longrightarrow>
         maxAmount m = 0 \<and> \<not> canTransfer m)) \<and>
   (transferType = Token \<longrightarrow>
      tokenBalanceAnswer w = Inr (availableBalance m) \<and>
      (\<exists>ethBalanceWei. balanceAnswer w = Inr ethBalanceWei \<and>
         maxAmount m =
           (if totalCost (maxGasEstimate m) \<le> ethBalanceWei then availableBalance m else 0) \<and>
         canTransfer m =
           (totalCost (maxGasEstimate m) \<le> ethBalanceWei \<and> 0 < availableBalance m)))"
  proof (cases transferType)
    case Native
    with b wa addr self nonempty show ?thesis
      by (auto simp: calculateMaxBody_def Let_def split: if_splits sum.splits)
  next
    case Token
    with b wa addr self nonempty show ?thesis
      by (auto simp: calculateMaxBody_def Let_def split: if_splits sum.splits)
  qed
qed

theorem max_transfer_amount_witness:
  "calculateMaxTransferAmount (\<lambda>x. x) simpleIsAddress (Some ''0xa11c'') ''0xb0b0'' Native None
     Safe None (Inr 1) healthyChain =
   Inr \<lparr>maxAmount = 999160000000000000,
        maxGasEstimate = \<lparr>gasLimit = 21000, gasPrice = 40000000000,
          maxFeePerGas = Some 40000000000, maxPriorityFeePerGas = Some 30000000000,
          totalCost = 840000000000000\<rparr>,
        availableBalance = 1000000000000000000, canTransfer = True\<rparr> \<and>
   (840000000000000::int) \<le> 1000000000000000000 \<and>
   (999160000000000000::int) + 840000000000000 = 1000000000000000000 \<and>
   balanceAnswer healthyChain = Inr 1000000000000000000 \<and>
   toLowerCase ''0xb0b0'' \<noteq> toLowerCase ''0xa11c'' \<and>
   calculateMaxTransferAmount (\<lambda>x. x) simpleIsAddress (Some ''0xa11c'') ''0xb0b0'' Native None
     Safe None (Inr 1) poorChain =
   Inr \<lparr>maxAmount = 0,
        maxGasEstimate = \<lparr>gasLimit = 20000, gasPrice = 1000000000000, maxFeePerGas = None,
          maxPriorityFeePerGas = None, totalCost = 20000000000000000\<rparr>,
        availableBalance = 10000000000000000, canTransfer = False\<rparr> \<and>
   (10000000000000000::int) < 20000000000000000 \<and>
   calculateMaxTransferAmount (\<lambda>x. x) simpleIsAddress (Some ''0xa11c'') ''0xb0b0'' Token
     (Some ''0xda10'') Safe None (Inr 1) healthyChain =
   Inr \<lparr>maxAmount = 5000000,
        maxGasEstimate = \<lparr>gasLimit = 21000, gasPrice = 40000000000,
          maxFeePerGas = Some 40000000000, maxPriorityFeePerGas = Some 30000000000,
          totalCost = 840000000000000\<rparr>,
        availableBalance = 5000000, canTransfer = True\<rparr> \<and>
   tokenBalanceAnswer healthyChain = Inr 5000000"
  using max_transfer_amount[where rnd="\<lambda>x. x" and isAddress=simpleIsAddress
      and wallet="Some ''0xa11c''" and to="''0xb0b0''" and transferType=Native
      and tokenAddress=None and gasStrategy=Safe and customGasConfig=None
      and minTokenValue="Inr 1" and w=healthyChain
      and m="\<lparr>maxAmount = 999160000000000000,
        maxGasEstimate = \<lparr>gasLimit = 21000, gasPrice = 40000000000,
          maxFeePerGas = Some 40000000000, maxPriorityFeePerGas = Some 30000000000,
          totalCost = 840000000000000\<rparr>,
        availableBalance = 1000000000000000000, canTransfer = True\<rparr>"]
    max_transfer_amount[where rnd="\<lambda>x. x" and isAddress=simpleIsAddress
      and wallet="Some ''0xa11c''" and to="''0xb0b0''" and transferType=Native
      and tokenAddress=None and gasStrategy=Safe and customGasConfig=None
      and minTokenValue="Inr 1" and w=poorChain
      and m="\<lparr>maxAmount = 0,
        maxGasEstimate = \<lparr>gasLimit = 20000, gasPrice = 1000000000000, maxFeePerGas = None,
          maxPriorityFeePerGas = None, totalCost = 20000000000000000\<rparr>,
        availableBalance = 10000000000000000, canTransfer = False\<rparr>"]
    max_transfer_amount[where rnd="\<lambda>x. x" and isAddress=simpleIsAddress
      and wallet="Some ''0xa11c''" and to="''0xb0b0''" and transferType=Token
      and tokenAddress="Some ''0xda10''" and gasStrategy=Safe and customGasConfig=None
      and minTokenValue="Inr 1" and w=healthyChain
      and m="\<lparr>maxAmount = 5000000,
        maxGasEstimate = \<lparr>gasLimit = 21000, gasPrice = 40000000000,
          maxFeePerGas = Some 40000000000, maxPriorityFeePerGas = Some 30000000000,
          totalCost = 840000000000000\<rparr>,
        availableBalance = 5000000, canTransfer = True\<rparr>"]
  by (simp add: poor_max healthy_max healthy_token_max)

text \<open>
  The claim as written fails. With a balance of 0.01 and a gas cost of 0.02 the maximum is
  0 and no transfer is possible, as the claim's second half says, but then maximum plus
  cost is 0.02 and exceeds the balance. For a token the maximum is the whole token
  balance, so maximum plus any positive cost exceeds the available balance.
\<close>

theorem max_plus_cost_exceeds_balance:
  "calculateMaxTransferAmount (\<lambda>x. x) simpleIsAddress (Some ''0xa11c'') ''0xb0b0'' Native None
     Safe None (Inr 1) poorChain =
   Inr \<lparr>maxAmount = 0,
        maxGasEstimate = \<lparr>gasLimit = 20000, gasPrice = 1000000000000, maxFeePerGas = None,
          maxPriorityFeePerGas = None, totalCost = 20000000000000000\<rparr>,
        availableBalance = 10000000000000000, canTransfer = False\<rparr> \<and>
   \<not> ((0::int) + 20000000000000000 \<le> 10000000000000000) \<and>
   calculateMaxTransferAmount (\<lambda>x. x) simpleIsAddress (Some ''0xa11c'') ''0xb0b0'' Token
     (Some ''0xda10'') Safe None (Inr 1) healthyChain =
   Inr \<lparr>maxAmount = 5000000,
        maxGasEstimate = \<lparr>gasLimit = 21000, gasPrice = 40000000000,
          maxFeePerGas = Some 40000000000, maxPriorityFeePerGas = Some 30000000000,
          totalCost = 840000000000000\<rparr>,
        availableBalance = 5000000, canTransfer = True\<rparr> \<and>
   \<not> ((5000000::int) + 840000000000000 \<le> 5000000)"
  by (simp add: poor_max healthy_token_max)

section \<open>Properties of transaction verification\<close>












section \<open>Properties of the validated-contract store\<close>

lemma getValidatedContractInfo_sound:
  "getValidatedContractInfo address networkId item = Some c \<Longrightarrow>
   contractNetworkId c = networkId \<and> getValidatedContracts item (toLowerCase address) = Some c"
  by (auto simp: getValidatedContractInfo_def split: option.splits if_splits)

text \<open>
  Claim C9, as the code has it. Entries are kept under the lower-cased address alone, and
  each entry records the network id it was validated on. A lookup for an address and a
  network id returns only the entry under that lower-cased address, and only if it records
  that network id. After a result is stored for an address on a network, the lookup for
  that pair returns the new entry; the lookup for the same address on any other network
  id returns nothing, since the one entry of the address was replaced; the lookups for
  every address with another lower-cased form are unchanged. When writing to storage
  fails, nothing changes.
\<close>

theorem validated_contracts_keyed_by_address:
  "(getValidatedContractInfo address networkId item = Some c \<longrightarrow>
      contractNetworkId c = networkId \<and>
      getValidatedContracts item (toLowerCase address) = Some c) \<and>
   (\<exists>c. getValidatedContractInfo address networkId
           (storeValidatedContract address result networkId now True item) = Some c \<and>
        contractAddress c = toLowerCase address \<and> contractNetworkId c = networkId \<and>
        contractIsValid c = resultIsValid result \<and> validatedAt c = now) \<and>
   (otherNetwork \<noteq> networkId \<longrightarrow>
      getValidatedContractInfo address otherNetwork
        (storeValidatedContract address result networkId now True item) = None) \<and>
   (toLowerCase otherAddress \<noteq> toLowerCase address \<longrightarrow>
      getValidatedContractInfo otherAddress anyNetwork
        (storeValidatedContract address result networkId now True item) =
      getValidatedContractInfo otherAddress anyNetwork item) \<and>
   storeValidatedContract address result networkId now False item = item"
  by (auto simp: getValidatedContractInfo_def storeValidatedContract_def
      getValidatedContracts_def Let_def split: option.splits if_splits)

theorem validated_contracts_keyed_by_address_witness:
  "getValidatedContractInfo ''0xDA10'' 137
     (storeValidatedContract ''0xDA10'' erc20Result 137 1000 True Absent) =
     Some \<lparr>contractAddress = ''0xda10'', contractIsValid = True, contractType = ''ERC20'',
           contractName = Some ''Dai'', contractSymbol = Some ''DAI'',
           contractDecimals = Some 18, validatedAt = 1000, contractNetworkId = 137\<rparr> \<and>
   (1::int) \<noteq> 137 \<and>
   getValidatedContractInfo ''0xda10'' 1
     (storeValidatedContract ''0xDA10'' erc20Result 137 1000 True Absent) = None \<and>
   toLowerCase ''0xBEEF'' \<noteq> toLowerCase ''0xDA10'' \<and>
   getValidatedContractInfo ''0xBEEF'' 137
     (storeValidatedContract ''0xDA10'' erc20Result 1 2000 True
        (storeValidatedContract ''0xBEEF'' erc20Result 137 1000 True Absent)) =
   getValidatedContractInfo ''0xBEEF'' 137
     (storeValidatedContract ''0xBEEF'' erc20Result 137 1000 True Absent)"
  using validated_contracts_keyed_by_address[where address="''0xDA10''" and networkId=137
      and item=Absent and result=erc20Result and now=1000 and otherNetwork=1
      and otherAddress="''0xBEEF''" and anyNetwork=137
      and c="\<lparr>contractAddress = ''0xda10'', contractIsValid = True, contractType = ''ERC20'',
           contractName = Some ''Dai'', contractSymbol = Some ''DAI'',
           contractDecimals = Some 18, validatedAt = 1000, contractNetworkId = 137\<rparr>"]
  by (simp add: getValidatedContractInfo_def storeValidatedContract_def
      getValidatedContracts_def Let_def erc20Result_def str_eval)

text \<open>
  The claim as written fails: after a token is stored for network 137 and then for network
  1, the entry for network 137, retrievable before the second store, is gone.
\<close>

theorem other_network_entry_overwritten:
  "getValidatedContractInfo ''0xDA10'' 137
     (storeValidatedContract ''0xDA10'' erc20Result 137 1000 True Absent) =
     Some \<lparr>contractAddress = ''0xda10'', contractIsValid = True, contractType = ''ERC20'',
           contractName = Some ''Dai'', contractSymbol = Some ''DAI'',
           contractDecimals = Some 18, validatedAt = 1000, contractNetworkId = 137\<rparr> \<and>
   getValidatedContractInfo ''0xDA10'' 137
     (storeValidatedContract ''0xDA10'' erc20Result 1 2000 True
        (storeValidatedContract ''0xDA10'' erc20Result 137 1000 True Absent)) = None"
  by (simp add: getValidatedContractInfo_def storeValidatedContract_def
      getValidatedContracts_def Let_def erc20Result_def str_eval)

end
